theory Spec2Isabelle
  imports Complex_Main
begin

section \<open>Python values shared by all modules\<close>

text \<open>
  Python \<open>str\<close> is modelled as \<open>string\<close> (code points below 256, on which
  \<open>.encode()\<close> cannot raise); \<open>bytes\<close> is a separate type, so that every
  \<open>.encode()\<close> / \<open>.decode()\<close> of the source is a visible call in the model.
\<close>

datatype bytes = Bytes (octets: string)

definition bytes_append :: "bytes \<Rightarrow> bytes \<Rightarrow> bytes" where
  "bytes_append a b = Bytes (octets a @ octets b)"

text \<open>
  Exceptions are values. A message built by an f-string is kept as the list of its
  parts: literal text, an interpolated number, a number printed with \<open>:.2f\<close>, or
  \<open>str(e)\<close> of another exception. \<open>HTTPError\<close> is the class of \<open>splunklib.binding\<close>:
  it carries its \<open>status\<close> and the text \<open>str(e)\<close>, and has no attribute \<open>message\<close>.
  The server needs the \<open>mcp\<close> package and so Python 3.10 or later, where
  \<open>socket.timeout\<close> is \<open>TimeoutError\<close> itself. \<open>ImportError\<close> carries the name that
  cannot be imported, \<open>AttributeError\<close> the attribute that is missing. \<open>GaiError\<close> is
  \<open>socket.gaierror\<close>. \<open>OtherException\<close> is any other subclass of \<open>Exception\<close>, with
  its text.
\<close>

datatype exn =
    ValueError "part list"
  | KeyError string
  | InvalidToken
  | HTTPError int string
  | TimeoutError "part list"
  | ConnectionError "part list"
  | ImportError string
  | AttributeError string
  | GaiError
  | UnicodeError string
  | TypeError string
  | ZeroDivisionError
  | OtherException string
and part = Txt string | Num int | Fixed2 real | Sub exn

section \<open>Machine-bound credential protection\<close>

subsection \<open>The libraries the two modules call\<close>

text \<open>
  \<open>hashlib\<close>, \<open>base64\<close>, the UTF-8 codec and the \<open>cryptography\<close> package are not part
  of the repository. They are parameters of the model: one record holds the functions
  both \<open>encrypt_password.py\<close> and \<open>credential_manager.py\<close> call.
  \<open>pbkdf2_derive\<close> is the class \<open>PBKDF2HMAC\<close> of
  \<open>cryptography.hazmat.primitives.kdf.pbkdf2\<close>, built with SHA-256, length 32 and
  100000 iterations, as a function of salt and password; \<open>credential_manager.py\<close>
  imports it under that name. \<open>encrypt_password.py\<close> imports the name \<open>PBKDF2\<close> from
  the same module: \<open>import_PBKDF2\<close> is what that name is bound to there, and \<open>None\<close>
  when the module defines no such name, which is the case in the \<open>cryptography\<close>
  package. \<open>Fernet(key)\<close> validates the key and may raise; \<open>f.encrypt\<close> draws an IV
  and a timestamp, passed here as the \<open>nonce\<close> argument.
\<close>

record pylib =
  sha256_hexdigest :: "bytes \<Rightarrow> string"
  str_encode :: "string \<Rightarrow> bytes"
  bytes_decode :: "bytes \<Rightarrow> exn + string"
  urlsafe_b64encode :: "bytes \<Rightarrow> bytes"
  urlsafe_b64decode :: "bytes \<Rightarrow> exn + bytes"
  pbkdf2_derive :: "bytes \<Rightarrow> bytes \<Rightarrow> bytes"
  import_PBKDF2 :: "(bytes \<Rightarrow> bytes \<Rightarrow> bytes) option"
  Fernet :: "bytes \<Rightarrow> exn + bytes"
  fernet_encrypt :: "bytes \<Rightarrow> bytes \<Rightarrow> bytes \<Rightarrow> bytes"
  fernet_decrypt :: "bytes \<Rightarrow> bytes \<Rightarrow> exn + bytes"

text \<open>
  What the host offers to \<open>get_machine_id\<close>: the value of \<open>hex(uuid.getnode())\<close>, the
  two environment variables, \<open>os.path.expanduser('~')\<close>, \<open>platform.system()\<close> and
  \<open>platform.machine()\<close>.
\<close>

record host =
  mac_hex :: string
  env_USER :: "string option"
  env_USERNAME :: "string option"
  home_dir :: string
  platform_system :: string
  platform_machine :: string

subsection \<open>encrypt_password.py\<close>

definition get_machine_id :: "pylib \<Rightarrow> host \<Rightarrow> string" where
  "get_machine_id L h =
     (let mac = str_encode L (mac_hex h);
          username = (case env_USER h of Some u \<Rightarrow> u
                      | None \<Rightarrow> (case env_USERNAME h of Some u \<Rightarrow> u | None \<Rightarrow> ''default''));
          username_bytes = str_encode L username;
          home_bytes = str_encode L (home_dir h);
          platform_info = platform_system h @ ''-'' @ platform_machine h;
          platform_bytes = str_encode L platform_info;
          machine_id = bytes_append (bytes_append (bytes_append mac username_bytes) home_bytes)
                         platform_bytes
      in sha256_hexdigest L machine_id)"

text \<open>
  The module starts with its imports (line 21): when the name \<open>PBKDF2\<close> is not
  defined, loading the module raises \<open>ImportError\<close> and none of its functions can be
  called. The functions below receive what the import bound.
\<close>

definition module_imports :: "pylib \<Rightarrow> exn + (bytes \<Rightarrow> bytes \<Rightarrow> bytes)" where
  "module_imports L =
     (case import_PBKDF2 L of None \<Rightarrow> Inl (ImportError ''PBKDF2'') | Some c \<Rightarrow> Inr c)"

text \<open>\<open>urandom\<close> is the value \<open>os.urandom(16)\<close> returns when no salt is given.\<close>

definition derive_key ::
  "pylib \<Rightarrow> (bytes \<Rightarrow> bytes \<Rightarrow> bytes) \<Rightarrow> bytes \<Rightarrow> string \<Rightarrow> bytes option \<Rightarrow> bytes \<times> bytes" where
  "derive_key L PBKDF2 urandom machine_id salt_arg =
     (let salt = (case salt_arg of None \<Rightarrow> urandom | Some s \<Rightarrow> s);
          key = urlsafe_b64encode L (PBKDF2 salt (str_encode L machine_id))
      in (key, salt))"

definition encrypt_password ::
  "pylib \<Rightarrow> host \<Rightarrow> bytes \<Rightarrow> bytes \<Rightarrow> string \<Rightarrow> exn + (string \<rightharpoonup> string)" where
  "encrypt_password L h urandom nonce password =
     (case module_imports L of
        Inl e \<Rightarrow> Inl e
      | Inr PBKDF2 \<Rightarrow>
     (let machine_id = get_machine_id L h;
          (key, salt) = derive_key L PBKDF2 urandom machine_id None
      in case Fernet L key of
           Inl e \<Rightarrow> Inl e
         | Inr f \<Rightarrow>
             (let encrypted = fernet_encrypt L f nonce (str_encode L password)
              in case bytes_decode L (urlsafe_b64encode L encrypted) of
                   Inl e \<Rightarrow> Inl e
                 | Inr enc_str \<Rightarrow>
                     (case bytes_decode L (urlsafe_b64encode L salt) of
                        Inl e \<Rightarrow> Inl e
                      | Inr salt_str \<Rightarrow>
                          Inr [''encrypted'' \<mapsto> enc_str,
                               ''salt'' \<mapsto> salt_str,
                               ''machine_hash'' \<mapsto>
                                 take 16 (sha256_hexdigest L (str_encode L machine_id))]))))"

text \<open>
  \<open>main\<close> prints the three values under the configuration keys
  \<open>password_encrypted\<close>, \<open>password_salt\<close> and \<open>machine_hash\<close> (with the user name);
  this is the dictionary the configuration hands back to the credential manager.
\<close>

definition printed_config :: "string \<Rightarrow> (string \<rightharpoonup> string) \<Rightarrow> (string \<rightharpoonup> string)" where
  "printed_config username encrypted_data =
     (\<lambda>k. if k = ''username'' then Some username
          else if k = ''password_encrypted'' then encrypted_data ''encrypted''
          else if k = ''password_salt'' then encrypted_data ''salt''
          else if k = ''machine_hash'' then encrypted_data ''machine_hash''
          else None)"

subsection \<open>credential_manager.py\<close>

record CredentialManager =
  machine_id_of :: string
  machine_hash_of :: string

definition CredentialManager_init :: "pylib \<Rightarrow> host \<Rightarrow> CredentialManager" where
  "CredentialManager_init L h =
     (let mid = get_machine_id L h
      in \<lparr> machine_id_of = mid,
           machine_hash_of = take 16 (sha256_hexdigest L (str_encode L mid)) \<rparr>)"

definition cm_derive_key :: "pylib \<Rightarrow> CredentialManager \<Rightarrow> bytes \<Rightarrow> bytes" where
  "cm_derive_key L self salt =
     urlsafe_b64encode L (pbkdf2_derive L salt (str_encode L (machine_id_of self)))"

text \<open>
  \<open>decrypt_password\<close> returns, besides its result, the cryptographic library calls it
  made, in order: the key derivation, the \<open>Fernet\<close> constructor and \<open>f.decrypt\<close>.
\<close>

datatype crypto_op = OpDeriveKey | OpFernet | OpDecrypt

definition str_exn :: "exn \<Rightarrow> part list" where
  "str_exn e = [Sub e]"

definition different_machine_msg :: "part list" where
  "different_machine_msg =
     [Txt (''Cannot decrypt password: This password was encrypted on a different machine. '' @
           ''Please re-run encrypt_password.py on this machine.'')]"

definition corrupted_msg :: "part list" where
  "corrupted_msg =
     [Txt (''Failed to decrypt password. The encrypted data may be corrupted '' @
           ''or the machine environment has changed.'')]"

definition decrypt_handler :: "exn \<Rightarrow> exn" where
  "decrypt_handler e =
     (case e of
        InvalidToken \<Rightarrow> ValueError corrupted_msg
      | _ \<Rightarrow> ValueError (Txt ''Failed to decrypt password: '' # str_exn e))"

definition decrypt_password ::
  "pylib \<Rightarrow> CredentialManager \<Rightarrow> (string \<rightharpoonup> string) \<Rightarrow> crypto_op list \<times> (exn + string)" where
  "decrypt_password L self encrypted_data =
     (if encrypted_data ''machine_hash'' \<noteq> Some (machine_hash_of self)
      then ([], Inl (ValueError different_machine_msg))
      else
        (case encrypted_data ''password_salt'' of
           None \<Rightarrow> ([], Inl (decrypt_handler (KeyError ''password_salt'')))
         | Some salt_str \<Rightarrow>
        (case urlsafe_b64decode L (str_encode L salt_str) of
           Inl e \<Rightarrow> ([], Inl (decrypt_handler e))
         | Inr salt \<Rightarrow>
        (case encrypted_data ''password_encrypted'' of
           None \<Rightarrow> ([], Inl (decrypt_handler (KeyError ''password_encrypted'')))
         | Some enc_str \<Rightarrow>
        (case urlsafe_b64decode L (str_encode L enc_str) of
           Inl e \<Rightarrow> ([], Inl (decrypt_handler e))
         | Inr encrypted \<Rightarrow>
        (let key = cm_derive_key L self salt
         in case Fernet L key of
              Inl e \<Rightarrow> ([OpDeriveKey, OpFernet], Inl (decrypt_handler e))
            | Inr f \<Rightarrow>
                (case fernet_decrypt L f encrypted of
                   Inl e \<Rightarrow> ([OpDeriveKey, OpFernet, OpDecrypt], Inl (decrypt_handler e))
                 | Inr decrypted \<Rightarrow>
                     (case bytes_decode L decrypted of
                        Inl e \<Rightarrow> ([OpDeriveKey, OpFernet, OpDecrypt], Inl (decrypt_handler e))
                      | Inr password \<Rightarrow>
                          ([OpDeriveKey, OpFernet, OpDecrypt], Inr password)))))))))"

text \<open>The plain-text branch also emits a \<open>UserWarning\<close>; the flag records it.\<close>

record credentials =
  cred_username :: string
  cred_password :: string

definition get_credentials ::
  "pylib \<Rightarrow> CredentialManager \<Rightarrow> (string \<rightharpoonup> string) \<Rightarrow> bool \<times> (exn + credentials)" where
  "get_credentials L self splunk_config =
     (case splunk_config ''username'' of
        None \<Rightarrow> (False, Inl (ValueError [Txt ''No username found in configuration'']))
      | Some username \<Rightarrow>
          (case splunk_config ''password_encrypted'' of
             Some pe \<Rightarrow>
               (case splunk_config ''password_salt'' of
                  None \<Rightarrow> (False, Inl (KeyError ''password_salt''))
                | Some ps \<Rightarrow>
                    (let encrypted_data =
                           [''password_encrypted'' \<mapsto> pe,
                            ''password_salt'' \<mapsto> ps,
                            ''machine_hash'' \<mapsto>
                              (case splunk_config ''machine_hash'' of
                                 None \<Rightarrow> '''' | Some mh \<Rightarrow> mh)]
                     in case snd (decrypt_password L self encrypted_data) of
                          Inl e \<Rightarrow> (False, Inl e)
                        | Inr password \<Rightarrow>
                            (False, Inr \<lparr> cred_username = username,
                                          cred_password = password \<rparr>)))
           | None \<Rightarrow>
               (case splunk_config ''password'' of
                  Some p \<Rightarrow> (True, Inr \<lparr> cred_username = username, cred_password = p \<rparr>)
                | None \<Rightarrow>
                    (False, Inl (ValueError [Txt ''No password found in configuration''])))))"

subsection \<open>What the round trip needs from the libraries\<close>

text \<open>
  Base64 decoding undoes encoding; Base64 output is text that survives
  \<open>.decode('utf-8')\<close> followed by \<open>.encode()\<close>; a string survives \<open>.encode()\<close>
  followed by \<open>.decode('utf-8')\<close>; the encoded 32-byte derived key is accepted by
  \<open>Fernet\<close>, and a token made under a key decrypts under it to the message.
\<close>

definition lib_sound :: "pylib \<Rightarrow> bool" where
  "lib_sound L \<longleftrightarrow>
     (\<forall>b. urlsafe_b64decode L (urlsafe_b64encode L b) = Inr b) \<and>
     (\<forall>b. \<exists>s. bytes_decode L (urlsafe_b64encode L b) = Inr s \<and>
               str_encode L s = urlsafe_b64encode L b) \<and>
     (\<forall>s. bytes_decode L (str_encode L s) = Inr s) \<and>
     (\<forall>salt pw. \<exists>f. Fernet L (urlsafe_b64encode L (pbkdf2_derive L salt pw)) = Inr f \<and>
                  (\<forall>nonce m. fernet_decrypt L f (fernet_encrypt L f nonce m) = Inr m))"

text \<open>
  A small library that satisfies \<open>lib_sound\<close> and, like the \<open>cryptography\<close> package,
  defines no name \<open>PBKDF2\<close>.
\<close>

definition toy_lib :: pylib where
  "toy_lib =
     \<lparr> sha256_hexdigest = (\<lambda>b. octets b),
       str_encode = Bytes,
       bytes_decode = (\<lambda>b. Inr (octets b)),
       urlsafe_b64encode = (\<lambda>b. b),
       urlsafe_b64decode = (\<lambda>b. Inr b),
       pbkdf2_derive = (\<lambda>salt pw. bytes_append salt pw),
       import_PBKDF2 = None,
       Fernet = (\<lambda>k. Inr k),
       fernet_encrypt = (\<lambda>f nonce m. Bytes (rev (octets m))),
       fernet_decrypt = (\<lambda>f t. Inr (Bytes (rev (octets t)))) \<rparr>"

definition toy_host :: host where
  "toy_host =
     \<lparr> mac_hex = ''0x1'', env_USER = Some ''u'', env_USERNAME = None,
       home_dir = ''/h'', platform_system = ''L'', platform_machine = ''x'' \<rparr>"

section \<open>Resilient remote query execution (splunk_client.py)\<close>

subsection \<open>Result rows\<close>

text \<open>
  A result row is a JSON object read by \<open>json.loads\<close>: a dictionary in insertion order
  with distinct keys, here an association list. The service emits every field value as
  a string, and a multivalue field as a list of strings.
\<close>

datatype fval = Str string | MV "string list"

type_synonym row = "(string \<times> fval) list"

definition truthy :: "fval \<Rightarrow> bool" where
  "truthy v = (case v of Str s \<Rightarrow> s \<noteq> [] | MV l \<Rightarrow> l \<noteq> [])"

definition row_get :: "row \<Rightarrow> string \<Rightarrow> fval \<Rightarrow> fval" where
  "row_get r k d = (case map_of r k of Some v \<Rightarrow> v | None \<Rightarrow> d)"

subsection \<open>The remote service and the clock\<close>

text \<open>
  The remote service is an oracle: for each kind of call it fixes the outcome of the
  k-th call (a value, or the exception raised). A job carries the outcomes of its own
  calls. \<open>connect_attempt\<close> is the pair \<open>client.connect(**kwargs)\<close>,
  \<open>service.apps.list()\<close> of one loop iteration; \<open>job_stats\<close> is the reading and
  conversion of the four counters; \<open>job_results\<close> is \<open>job.results\<close>, \<open>read\<close> and
  \<open>json.loads\<close>. \<open>clock\<close> gives the successive values of \<open>time.time()\<close>.
  \<open>gethostbyname\<close> returns an address or raises: \<open>socket.gaierror\<close> for a name that
  does not resolve, \<open>UnicodeError\<close> for a name with an empty or over-long label.
\<close>

type_synonym service = nat

record stats =
  scan_count :: int
  event_count :: int
  result_count :: int
  run_duration :: real

record results_data =
  rd_results :: "row list option"
  rd_fields :: "row list option"
  rd_messages :: "row list option"

record job =
  sid :: string
  is_done_at :: "nat \<Rightarrow> exn + bool"
  job_cancel :: "exn option"
  job_stats :: "exn + stats"
  job_results :: "exn + results_data"

record remote =
  gethostbyname :: "string \<Rightarrow> exn + string"
  connect_attempt :: "nat \<Rightarrow> exn + service"
  apps_list :: "nat \<Rightarrow> exn option"
  jobs_create :: "nat \<Rightarrow> exn + job"
  indexes_list :: "nat \<Rightarrow> exn + string list"
  clock :: "nat \<Rightarrow> real"

text \<open>
  The observable effects, in the order they happen: a connection attempt, a
  \<open>time.sleep\<close> of the given number of seconds, a \<open>job.cancel()\<close> call on the job with
  the given sid.
\<close>

datatype event = Attempt | Sleep real | Cancel string

record client_state =
  connections_main :: "service option"
  last_query_info :: "(string \<times> string \<times> stats) option"
  n_connect :: nat
  n_apps_list :: nat
  n_jobs :: nat
  n_indexes :: nat
  n_clock :: nat
  events :: "event list"

definition log_event :: "event \<Rightarrow> client_state \<Rightarrow> client_state" where
  "log_event ev st = st\<lparr>events := events st @ [ev]\<rparr>"

record query_settings =
  default_earliest_time :: "string option"
  default_latest_time :: "string option"
  max_results_setting :: "int option"
  max_execution_time :: "int option"

record config =
  splunk_config :: "string \<rightharpoonup> string"
  settings :: query_settings

text \<open>Only \<open>socket.gaierror\<close> is caught; any other exception leaves the function.\<close>

definition resolve_hostname :: "remote \<Rightarrow> string \<Rightarrow> exn + string" where
  "resolve_hostname W hostname =
     (case gethostbyname W hostname of
        Inr ip_address \<Rightarrow> Inr ip_address
      | Inl GaiError \<Rightarrow> Inr hostname
      | Inl e \<Rightarrow> Inl e)"

subsection \<open>_create_connection\<close>

text \<open>
  The body of \<open>for attempt in range(retry_count)\<close>, as recursion over the list of the
  remaining values of \<open>attempt\<close>; \<open>last_error\<close> is the text the final message shows.
\<close>

fun connect_loop ::
  "remote \<Rightarrow> int \<Rightarrow> nat list \<Rightarrow> part \<Rightarrow> client_state \<Rightarrow> (exn + service) \<times> client_state" where
  "connect_loop W retry_count [] last_error st =
     (Inl (ConnectionError [Txt ''Failed to connect to Splunk after '', Num retry_count,
                            Txt '' attempts. Last error: '', last_error]), st)"
| "connect_loop W retry_count (attempt # rest) last_error st =
     (let outcome = connect_attempt W (n_connect st);
          st1 = log_event Attempt (st\<lparr>n_connect := n_connect st + 1\<rparr>);
          st2 = (if int attempt < retry_count - 1
                 then log_event (Sleep (2 ^ attempt)) st1 else st1)
      in case outcome of
           Inr service \<Rightarrow> (Inr service, st1)
         | Inl (HTTPError status m) \<Rightarrow>
             (if status = 401
              then (Inl (ConnectionError [Txt ''Authentication failed: Invalid credentials'']),
                    st1)
              else connect_loop W retry_count rest (Sub (HTTPError status m)) st2)
         | Inl (TimeoutError m) \<Rightarrow>
             connect_loop W retry_count rest (Txt ''Connection timeout'') st2
         | Inl e \<Rightarrow> connect_loop W retry_count rest (Sub e) st2)"

definition create_connection ::
  "pylib \<Rightarrow> CredentialManager \<Rightarrow> config \<Rightarrow> remote \<Rightarrow> int \<Rightarrow> client_state
     \<Rightarrow> (exn + service) \<times> client_state" where
  "create_connection L cm cfg W retry_count st =
     (case snd (get_credentials L cm (splunk_config cfg)) of
        Inl e \<Rightarrow> (Inl e, st)
      | Inr credentials \<Rightarrow>
          (case splunk_config cfg ''host'' of
             None \<Rightarrow> (Inl (KeyError ''host''), st)
           | Some hostname \<Rightarrow>
               (case resolve_hostname W hostname of
                  Inl e \<Rightarrow> (Inl e, st)
                | Inr host \<Rightarrow>
                    (case splunk_config cfg ''port'' of
                       None \<Rightarrow> (Inl (KeyError ''port''), st)
                     | Some port \<Rightarrow>
                         connect_loop W retry_count [0 ..< nat retry_count]
                           (Txt ''None'') st))))"

subsection \<open>get_connection\<close>

definition get_connection ::
  "pylib \<Rightarrow> CredentialManager \<Rightarrow> config \<Rightarrow> remote \<Rightarrow> bool \<Rightarrow> client_state
     \<Rightarrow> (exn + service) \<times> client_state" where
  "get_connection L cm cfg W force_new st =
     (let first =
            (case (if force_new then None else connections_main st) of
               None \<Rightarrow>
                 (case create_connection L cm cfg W 3 st of
                    (Inl e, st') \<Rightarrow> (Inl e, st')
                  | (Inr s, st') \<Rightarrow> (Inr s, st'\<lparr>connections_main := Some s\<rparr>))
             | Some s \<Rightarrow> (Inr s, st))
      in case first of
           (Inl e, st1) \<Rightarrow> (Inl e, st1)
         | (Inr main, st1) \<Rightarrow>
             (let probe = apps_list W (n_apps_list st1);
                  st2 = st1\<lparr>n_apps_list := n_apps_list st1 + 1\<rparr>
              in case probe of
                   None \<Rightarrow> (Inr main, st2)
                 | Some e \<Rightarrow>
                     (case create_connection L cm cfg W 3 st2 of
                        (Inl e', st3) \<Rightarrow> (Inl e', st3)
                      | (Inr s, st3) \<Rightarrow> (Inr s, st3\<lparr>connections_main := Some s\<rparr>))))"

subsection \<open>execute_query\<close>

definition isspace :: "char \<Rightarrow> bool" where
  "isspace c = (of_char c \<in> {9, 10, 11, 12, 13, 28, 29, 30, 31, 32, 133, 160 :: nat})"

definition strip :: "string \<Rightarrow> string" where
  "strip s = dropWhile isspace (rev (dropWhile isspace (rev s)))"

definition startswith :: "string \<Rightarrow> string \<Rightarrow> bool" where
  "startswith s p = (take (length p) s = p)"

definition normalize_query :: "string \<Rightarrow> string" where
  "normalize_query query =
     (if \<not> list_ex (\<lambda>cmd. startswith (strip query) cmd) [''search'', ''|'', ''index'']
      then ''search '' @ query else query)"

text \<open>
  The result envelope is a dictionary; a key the source may leave out is an optional
  field. \<open>q_error\<close> holds \<open>str(e)\<close>.
\<close>

record envelope =
  q_status :: string
  q_query :: "string option"
  q_time_range :: "(string \<times> string) option"
  q_statistics :: "stats option"
  q_results :: "row list option"
  q_fields :: "row list option"
  q_messages :: "row list option"
  q_error :: "part list option"
  q_error_type :: "string option"

definition error_envelope :: "string \<Rightarrow> part list \<Rightarrow> string \<Rightarrow> envelope" where
  "error_envelope query err etype =
     \<lparr> q_status = ''error'', q_query = Some query, q_time_range = None,
       q_statistics = None, q_results = None, q_fields = None, q_messages = None,
       q_error = Some err, q_error_type = Some etype \<rparr>"

text \<open>
  The three \<open>except\<close> clauses, in the order of the source. The second one builds its
  text from \<open>e.status\<close> and \<open>e.message\<close> (line 299); the exception has no attribute
  \<open>message\<close>, so the clause raises \<open>AttributeError\<close>, which leaves \<open>execute_query\<close>.
\<close>

definition query_handler :: "string \<Rightarrow> exn \<Rightarrow> exn + envelope" where
  "query_handler query e =
     (case e of
        TimeoutError m \<Rightarrow> Inr (error_envelope query (str_exn e) ''timeout'')
      | HTTPError status m \<Rightarrow> Inl (AttributeError ''message'')
      | _ \<Rightarrow> Inr (error_envelope query (str_exn e) ''general_error''))"

text \<open>
  The polling loop. It may run forever (a job that is never done under a clock that
  never passes the deadline), so it is a partial function: \<open>None\<close> is "does not return".
  \<open>k\<close> counts the calls of \<open>job.is_done()\<close> made so far.
\<close>

partial_function (option) wait_for_job ::
  "remote \<Rightarrow> job \<Rightarrow> real \<Rightarrow> int \<Rightarrow> nat \<Rightarrow> client_state \<Rightarrow> ((exn + unit) \<times> client_state) option"
where
  "wait_for_job W j start_time timeout k st =
     (case is_done_at j k of
        Inl e \<Rightarrow> Some (Inl e, st)
      | Inr done \<Rightarrow>
          if done then Some (Inr (), st)
          else
          (let now = clock W (n_clock st);
               st1 = st\<lparr>n_clock := n_clock st + 1\<rparr>
           in if now - start_time > real_of_int timeout
              then (let st2 = log_event (Cancel (sid j)) st1
                    in case job_cancel j of
                         Some e \<Rightarrow> Some (Inl e, st2)
                       | None \<Rightarrow>
                           Some (Inl (TimeoutError
                                   [Txt ''Query execution exceeded timeout of '', Num timeout,
                                    Txt '' seconds'']), st2))
              else wait_for_job W j start_time timeout (k + 1) (log_event (Sleep (1/2)) st1)))"

definition execute_query ::
  "pylib \<Rightarrow> CredentialManager \<Rightarrow> config \<Rightarrow> remote \<Rightarrow> string \<Rightarrow> string option \<Rightarrow> string option
     \<Rightarrow> int option \<Rightarrow> int option \<Rightarrow> client_state
     \<Rightarrow> ((exn + envelope) \<times> client_state) option" where
  "execute_query L cm cfg W query earliest_arg latest_arg max_results_arg timeout_arg st =
     (case get_connection L cm cfg W False st of
        (Inl e, st1) \<Rightarrow> Some (query_handler query e, st1)
      | (Inr service, st1) \<Rightarrow>
     (let query_settings = settings cfg;
          earliest_time = (case earliest_arg of Some t \<Rightarrow> t
             | None \<Rightarrow> (case default_earliest_time query_settings of
                          Some t \<Rightarrow> t | None \<Rightarrow> ''-30d''));
          latest_time = (case latest_arg of Some t \<Rightarrow> t
             | None \<Rightarrow> (case default_latest_time query_settings of
                          Some t \<Rightarrow> t | None \<Rightarrow> ''now''));
          max_results = (case max_results_arg of Some n \<Rightarrow> n
             | None \<Rightarrow> (case max_results_setting query_settings of
                          Some n \<Rightarrow> n | None \<Rightarrow> 10000));
          timeout = (case timeout_arg of Some n \<Rightarrow> n
             | None \<Rightarrow> (case max_execution_time query_settings of
                          Some n \<Rightarrow> n | None \<Rightarrow> 300));
          query' = normalize_query query;
          created = jobs_create W (n_jobs st1);
          st2 = st1\<lparr>n_jobs := n_jobs st1 + 1\<rparr>
      in case created of
           Inl e \<Rightarrow> Some (query_handler query' e, st2)
         | Inr j \<Rightarrow>
     (let start_time = clock W (n_clock st2);
          st3 = st2\<lparr>n_clock := n_clock st2 + 1\<rparr>
      in case wait_for_job W j start_time timeout 0 st3 of
           None \<Rightarrow> None
         | Some (Inl e, st4) \<Rightarrow> Some (query_handler query' e, st4)
         | Some (Inr u, st4) \<Rightarrow>
     (case job_stats j of
        Inl e \<Rightarrow> Some (query_handler query' e, st4)
      | Inr stats \<Rightarrow>
     (let st5 = st4\<lparr>last_query_info := Some (sid j, query', stats)\<rparr>
      in case job_results j of
           Inl e \<Rightarrow> Some (query_handler query' e, st5)
         | Inr results_data \<Rightarrow>
     (let st6 = log_event (Cancel (sid j)) st5
      in case job_cancel j of
           Some e \<Rightarrow> Some (query_handler query' e, st6)
         | None \<Rightarrow>
             Some (Inr \<lparr> q_status = ''success'', q_query = Some query',
                     q_time_range = Some (earliest_time, latest_time),
                     q_statistics = Some stats,
                     q_results = Some (case rd_results results_data of
                                         Some rs \<Rightarrow> rs | None \<Rightarrow> []),
                     q_fields = Some (case rd_fields results_data of
                                        Some fs \<Rightarrow> fs | None \<Rightarrow> []),
                     q_messages = Some (case rd_messages results_data of
                                          Some ms \<Rightarrow> ms | None \<Rightarrow> []),
                     q_error = None, q_error_type = None \<rparr>, st6)))))))"

subsection \<open>get_indexes and get_sourcetypes\<close>

text \<open>
  Both return \<open>exn + list\<close>, so that "never raises" is a statement about the result
  and not a property of the type.
\<close>

definition get_indexes ::
  "pylib \<Rightarrow> CredentialManager \<Rightarrow> config \<Rightarrow> remote \<Rightarrow> client_state
     \<Rightarrow> (exn + string list) \<times> client_state" where
  "get_indexes L cm cfg W st =
     (case get_connection L cm cfg W False st of
        (Inl e, st1) \<Rightarrow> (Inr [], st1)
      | (Inr service, st1) \<Rightarrow>
          (let st2 = st1\<lparr>n_indexes := n_indexes st1 + 1\<rparr>
           in case indexes_list W (n_indexes st1) of
                Inl e \<Rightarrow> (Inr [], st2)
              | Inr indexes \<Rightarrow> (Inr indexes, st2)))"

text \<open>The query text; \<open>if index\<close> is false for \<open>None\<close> and for the empty string.\<close>

definition sourcetypes_query :: "string option \<Rightarrow> string" where
  "sourcetypes_query index =
     (case index of
        None \<Rightarrow> ''| metadata type=sourcetypes''
      | Some i \<Rightarrow> if i \<noteq> [] then ''| metadata type=sourcetypes index='' @ i
                  else ''| metadata type=sourcetypes'')"

definition get_sourcetypes ::
  "pylib \<Rightarrow> CredentialManager \<Rightarrow> config \<Rightarrow> remote \<Rightarrow> string option \<Rightarrow> client_state
     \<Rightarrow> ((exn + fval list) \<times> client_state) option" where
  "get_sourcetypes L cm cfg W index st =
     (case get_connection L cm cfg W False st of
        (Inl e, st1) \<Rightarrow> Some (Inr [], st1)
      | (Inr service, st1) \<Rightarrow>
          (let query = sourcetypes_query index
           in case execute_query L cm cfg W query (Some ''-7d'') (Some ''now'') (Some 1000)
                     None st1 of
                None \<Rightarrow> None
              | Some (Inl e, st2) \<Rightarrow> Some (Inr [], st2)
              | Some (Inr result, st2) \<Rightarrow>
                  (if q_status result = ''success''
                   then (let sourcetypes =
                               map (\<lambda>r. row_get r ''sourcetype'' (Str ''''))
                                   (case q_results result of Some rs \<Rightarrow> rs | None \<Rightarrow> [])
                         in Some (Inr (filter truthy sourcetypes), st2))
                   else Some (Inr [], st2))))"

section \<open>Result summarization and pagination (response_formatter.py)\<close>

subsection \<open>Python primitives the formatter relies on\<close>

text \<open>
  \<open>str(value)\<close>: a string is itself; a list prints as \<open>[\<close>, the \<open>repr\<close> of its
  elements joined by a comma and a space, \<open>]\<close>. \<open>repr\<close> of a string picks double
  quotes only when the text has a single quote and no double quote, and escapes the
  quote, the backslash and the characters that are not printable.
\<close>

definition hexdigit :: "nat \<Rightarrow> char" where
  "hexdigit n = ''0123456789abcdef'' ! (n mod 16)"

definition repr_quote :: "string \<Rightarrow> char" where
  "repr_quote s = (if CHR 0x27 \<in> set s \<and> CHR 0x22 \<notin> set s then CHR 0x22 else CHR 0x27)"

definition repr_char :: "char \<Rightarrow> char \<Rightarrow> string" where
  "repr_char q c =
     (let n = (of_char c :: nat)
      in if c = q \<or> c = CHR 0x5C then [CHR 0x5C, c]
         else if n = 9 then [CHR 0x5C, CHR ''t'']
         else if n = 10 then [CHR 0x5C, CHR ''n'']
         else if n = 13 then [CHR 0x5C, CHR ''r'']
         else if n < 32 \<or> n = 127 \<or> (128 \<le> n \<and> n \<le> 160) \<or> n = 173
         then [CHR 0x5C, CHR ''x'', hexdigit (n div 16), hexdigit n]
         else [c])"

definition py_repr :: "string \<Rightarrow> string" where
  "py_repr s = (let q = repr_quote s in q # concat (map (repr_char q) s) @ [q])"

fun join :: "string \<Rightarrow> string list \<Rightarrow> string" where
  "join sep [] = []"
| "join sep [x] = x"
| "join sep (x # y # ys) = x @ sep @ join sep (y # ys)"

definition py_str :: "fval \<Rightarrow> string" where
  "py_str v = (case v of Str s \<Rightarrow> s | MV l \<Rightarrow> ''['' @ join '', '' (map py_repr l) @ '']'')"

text \<open>
  \<open>value in sample_values\<close>: the list holds strings, and a Python list never equals a
  string.
\<close>

definition value_in :: "fval \<Rightarrow> string list \<Rightarrow> bool" where
  "value_in v samples = (case v of Str s \<Rightarrow> s \<in> set samples | MV l \<Rightarrow> False)"

text \<open>
  A dictionary in insertion order: assigning to a present key keeps its place,
  assigning to a new key appends it.
\<close>

fun dict_set :: "('k \<times> 'v) list \<Rightarrow> 'k \<Rightarrow> 'v \<Rightarrow> ('k \<times> 'v) list" where
  "dict_set [] k v = [(k, v)]"
| "dict_set ((k', v') # d) k v = (if k' = k then (k, v) # d else (k', v') # dict_set d k v)"

text \<open>
  \<open>collections.Counter\<close>: \<open>c[key] += 1\<close>, and \<open>most_common\<close>, which sorts the items
  by count, largest first, items of equal count staying in insertion order
  (\<open>sort_key\<close> is a stable insertion sort), and keeps the first \<open>n\<close>.
\<close>

definition counter_incr :: "('k \<times> nat) list \<Rightarrow> 'k \<Rightarrow> ('k \<times> nat) list" where
  "counter_incr c k = dict_set c k (case map_of c k of None \<Rightarrow> 1 | Some n \<Rightarrow> n + 1)"

definition most_common_all :: "('k \<times> nat) list \<Rightarrow> ('k \<times> nat) list" where
  "most_common_all c = sort_key (\<lambda>kv. - int (snd kv)) c"

definition most_common :: "nat \<Rightarrow> ('k \<times> nat) list \<Rightarrow> ('k \<times> nat) list" where
  "most_common n c = take n (most_common_all c)"

text \<open>
  \<open>Counter(iterable)\<close> hashes every element: a list is unhashable and raises
  \<open>TypeError\<close>.
\<close>

fun counter_of :: "(string \<times> nat) list \<Rightarrow> fval list \<Rightarrow> exn + (string \<times> nat) list" where
  "counter_of c [] = Inr c"
| "counter_of c (MV l # vs) =
     Inl (TypeError (''unhashable type: '' @ [CHR 0x27] @ ''list'' @ [CHR 0x27]))"
| "counter_of c (Str s # vs) = counter_of (counter_incr c s) vs"

subsection \<open>_calculate_pagination\<close>

record pagination =
  p_total_results :: int
  p_page_size :: int
  p_total_pages :: int
  p_requires_pagination :: bool

definition calculate_pagination :: "int \<Rightarrow> int \<Rightarrow> exn + pagination" where
  "calculate_pagination total_results page_size =
     (if page_size = 0 then Inl ZeroDivisionError
      else (let total_pages = (total_results + page_size - 1) div page_size
            in Inr \<lparr> p_total_results = total_results, p_page_size = page_size,
                     p_total_pages = total_pages,
                     p_requires_pagination = (total_pages > 1) \<rparr>))"

subsection \<open>_generate_field_summary\<close>

record field_acc =
  sample_values :: "string list"
  value_count :: "(string \<times> nat) list"

record field_info =
  fi_sample_values :: "string list"
  fi_unique_count :: nat
  fi_top_values :: "(string \<times> nat) list"

text \<open>The body of the inner loop, for one \<open>(field, value)\<close> item of a row.\<close>

definition summary_add ::
  "(string \<times> field_acc) list \<Rightarrow> string \<times> fval \<Rightarrow> (string \<times> field_acc) list" where
  "summary_add field_summary item =
     (let field = fst item; value = snd item
      in if startswith field ''_'' then field_summary
         else
           (let acc = (case map_of field_summary field of
                         None \<Rightarrow> \<lparr> sample_values = [], value_count = [] \<rparr>
                       | Some a \<Rightarrow> a);
                samples = (if \<not> value_in value (sample_values acc)
                           then (if length (sample_values acc) < 5
                                 then sample_values acc @ [py_str value]
                                 else sample_values acc)
                           else sample_values acc)
            in dict_set field_summary field
                 \<lparr> sample_values = samples,
                   value_count = counter_incr (value_count acc) (py_str value) \<rparr>))"

definition collect_fields :: "row list \<Rightarrow> (string \<times> field_acc) list" where
  "collect_fields rows = foldl (\<lambda>fs result. foldl summary_add fs result) [] rows"

definition generate_field_summary :: "row list \<Rightarrow> (string \<times> field_info) list" where
  "generate_field_summary results =
     (if results = [] then []
      else (let sample_size = min 100 (length results);
                field_summary = collect_fields (take sample_size results)
            in map (\<lambda>fd. (fst fd,
                          \<lparr> fi_sample_values = sample_values (snd fd),
                            fi_unique_count = length (value_count (snd fd)),
                            fi_top_values = most_common 5 (value_count (snd fd)) \<rparr>))
                   field_summary))"

subsection \<open>_generate_event_summary\<close>

record event_summary =
  es_total_events :: nat
  es_unique_hosts :: "nat option"
  es_top_hosts :: "(string \<times> nat) list option"
  es_unique_sources :: "nat option"
  es_top_sources :: "(string \<times> nat) list option"
  es_sourcetypes :: "(string \<times> nat) list option"
  es_severity_distribution :: "(string \<times> nat) list option"

definition has_field :: "string \<Rightarrow> row \<Rightarrow> bool" where
  "has_field f r = (map_of r f \<noteq> None)"

text \<open>
  \<open>Counter(r.get(f, 'unknown') for r in results)\<close>, built only when some row has the
  field.
\<close>

definition field_counter :: "string \<Rightarrow> row list \<Rightarrow> exn + (string \<times> nat) list option" where
  "field_counter f results =
     (if list_ex (has_field f) results
      then (case counter_of [] (map (\<lambda>r. row_get r f (Str ''unknown'')) results) of
              Inl e \<Rightarrow> Inl e
            | Inr c \<Rightarrow> Inr (Some c))
      else Inr None)"

definition generate_event_summary :: "row list \<Rightarrow> exn + event_summary option" where
  "generate_event_summary results =
     (if results = [] then Inr None
      else
        (case field_counter ''host'' results of
           Inl e \<Rightarrow> Inl e
         | Inr hosts \<Rightarrow>
        (case field_counter ''source'' results of
           Inl e \<Rightarrow> Inl e
         | Inr sources \<Rightarrow>
        (case field_counter ''sourcetype'' results of
           Inl e \<Rightarrow> Inl e
         | Inr sourcetypes \<Rightarrow>
        (case (case find (\<lambda>f. list_ex (has_field f) results)
                      [''severity'', ''level'', ''log_level''] of
                 None \<Rightarrow> Inr None
               | Some severity_field \<Rightarrow> field_counter severity_field results) of
           Inl e \<Rightarrow> Inl e
         | Inr severities \<Rightarrow>
             Inr (Some \<lparr> es_total_events = length results,
                         es_unique_hosts = map_option length hosts,
                         es_top_hosts = map_option (most_common 5) hosts,
                         es_unique_sources = map_option length sources,
                         es_top_sources = map_option (most_common 5) sources,
                         es_sourcetypes = map_option most_common_all sourcetypes,
                         es_severity_distribution =
                           map_option most_common_all severities \<rparr>))))))"

subsection \<open>_clean_results\<close>

definition priority_fields :: "string list" where
  "priority_fields = [''_time'', ''host'', ''source'', ''sourcetype'', ''message'', ''_raw'']"

definition clean_result :: "row \<Rightarrow> row" where
  "clean_result result =
     (let c1 = foldl (\<lambda>c field. case map_of result field of
                                   Some v \<Rightarrow> dict_set c field v | None \<Rightarrow> c)
                     [] priority_fields;
          c2 = foldl (\<lambda>c item. if \<not> startswith (fst item) ''_'' \<and> map_of c (fst item) = None
                                then dict_set c (fst item) (snd item) else c)
                     c1 result
      in if map_of c2 ''_raw'' = None \<and> map_of c2 ''message'' = None
         then foldl (\<lambda>c item. if startswith (fst item) ''_'' \<and>
                                   fst item \<notin> set [''_time'', ''_raw'']
                                then dict_set c (fst item) (snd item) else c)
                    c2 result
         else c2)"

definition clean_results :: "row list \<Rightarrow> row list" where
  "clean_results results = map clean_result results"

subsection \<open>_format_error_response and the troubleshooting tips\<close>

definition get_troubleshooting_tips :: "string \<Rightarrow> string list" where
  "get_troubleshooting_tips error_type =
     (let general = [''Verify query syntax is correct'',
                     ''Check if specified indexes exist'',
                     ''Ensure you have permissions for the requested data'',
                     ''Try a simpler query to test connectivity'']
      in if error_type = ''timeout''
         then [''Query took too long to execute'',
               ''Try reducing the time range'',
               ''Add more specific filters to reduce data volume'',
               ''Consider using summary indexes for large datasets'']
         else if error_type = ''http_error''
         then [''Check your network connectivity'',
               ''Verify Splunk server is accessible'',
               ''Ensure credentials are correct'',
               ''Check if your account has necessary permissions'']
         else general)"

record error_report =
  er_type :: string
  er_status :: string
  er_query :: string
  er_timestamp :: string
  er_error_message :: "part list"
  er_error_type :: string
  er_troubleshooting :: "string list"

definition format_error_response :: "string \<Rightarrow> envelope \<Rightarrow> error_report" where
  "format_error_response now query_data =
     \<lparr> er_type = ''query_error'', er_status = ''error'',
       er_query = (case q_query query_data of Some q \<Rightarrow> q | None \<Rightarrow> ''''),
       er_timestamp = now,
       er_error_message = (case q_error query_data of
                             Some m \<Rightarrow> m | None \<Rightarrow> [Txt ''Unknown error'']),
       er_error_type = (case q_error_type query_data of
                          Some t \<Rightarrow> t | None \<Rightarrow> ''general_error''),
       er_troubleshooting =
         get_troubleshooting_tips (case q_error_type query_data of
                                     Some t \<Rightarrow> t | None \<Rightarrow> '''') \<rparr>"

subsection \<open>format_query_response\<close>

text \<open>
  The report is the dictionary handed to \<open>json.dumps\<close>; a key that is set on one
  branch only is an optional field. \<open>now\<close> is \<open>datetime.now().isoformat()\<close>; the
  execution time is the text of \<open>run_duration\<close> printed with \<open>:.2f\<close>, followed by
  \<open>s\<close>.
\<close>

record report_statistics =
  rs_total_events :: int
  rs_total_results :: int
  rs_scan_count :: int
  rs_execution_time :: "part list"

record pagination_guidance =
  pg_total_pages :: int
  pg_results_per_page :: int
  pg_suggestion :: string

record report =
  r_type :: string
  r_status :: string
  r_query :: string
  r_timestamp :: string
  r_time_range :: "(string \<times> string) option"
  r_statistics :: report_statistics
  r_pagination :: pagination
  r_field_summary :: "(string \<times> field_info) list"
  r_event_summary :: "event_summary option"
  r_results :: "row list option"
  r_results_preview :: "row list option"
  r_message :: "part list"
  r_pagination_guidance :: "pagination_guidance option"
  r_splunk_messages :: "row list option"

datatype formatted = QueryResults report | QueryError error_report

definition format_query_response ::
  "string \<Rightarrow> envelope \<Rightarrow> bool \<Rightarrow> int \<Rightarrow> exn + formatted" where
  "format_query_response now query_data include_raw page_size =
     (if q_status query_data = ''error''
      then Inr (QueryError (format_error_response now query_data))
      else
        (let results = (case q_results query_data of Some rs \<Rightarrow> rs | None \<Rightarrow> []);
             total_results = int (length results)
         in case calculate_pagination total_results page_size of
              Inl e \<Rightarrow> Inl e
            | Inr pagination_info \<Rightarrow>
        (let field_summary = generate_field_summary results
         in case generate_event_summary results of
              Inl e \<Rightarrow> Inl e
            | Inr event_summary \<Rightarrow>
        (let fits = (total_results \<le> page_size)
         in Inr (QueryResults
              \<lparr> r_type = ''query_results'', r_status = ''success'',
                r_query = (case q_query query_data of Some q \<Rightarrow> q | None \<Rightarrow> ''''),
                r_timestamp = now,
                r_time_range = q_time_range query_data,
                r_statistics =
                  \<lparr> rs_total_events = (case q_statistics query_data of
                                          Some s \<Rightarrow> event_count s | None \<Rightarrow> 0),
                    rs_total_results = total_results,
                    rs_scan_count = (case q_statistics query_data of
                                       Some s \<Rightarrow> scan_count s | None \<Rightarrow> 0),
                    rs_execution_time =
                      [Fixed2 (case q_statistics query_data of
                                 Some s \<Rightarrow> run_duration s | None \<Rightarrow> 0),
                       Txt ''s''] \<rparr>,
                r_pagination = pagination_info,
                r_field_summary = field_summary,
                r_event_summary = event_summary,
                r_results = (if fits \<and> include_raw then Some (clean_results results)
                             else None),
                r_results_preview = (if fits then None
                                     else Some (clean_results (take 100 results))),
                r_message =
                  (if fits
                   then [Txt ''Query completed with '', Num total_results, Txt '' results'']
                   else [Txt ''Query returned '', Num total_results,
                         Txt '' results (exceeds page size of '', Num page_size, Txt ''). '',
                         Txt ''Showing preview of first 100 results. '',
                         Txt ''Use pagination or refine your query for complete results.'']),
                r_pagination_guidance =
                  (if fits then None
                   else Some \<lparr> pg_total_pages = p_total_pages pagination_info,
                               pg_results_per_page = page_size,
                               pg_suggestion =
                                 ''Consider adding filters or time constraints to reduce result set'' \<rparr>),
                r_splunk_messages =
                  (case q_messages query_data of
                     None \<Rightarrow> None
                   | Some ms \<Rightarrow> if ms \<noteq> [] then Some ms else None) \<rparr>)))))"

section \<open>Observations and sample environments\<close>

subsection \<open>Reading the event log\<close>

text \<open>
  A connection attempt is transient when it fails with anything but an HTTP 401
  rejection. \<open>attempts_of\<close>, \<open>slept\<close> and \<open>cancels_of\<close> read a log: the number of
  connection attempts, the total time slept, the number of \<open>cancel\<close> calls on a job.
  \<open>backoff_events\<close> is what one failed iteration of the retry loop adds to the log.
\<close>

definition transient :: "exn + service \<Rightarrow> bool" where
  "transient r = (case r of Inr s \<Rightarrow> False
                  | Inl (HTTPError status m) \<Rightarrow> status \<noteq> 401
                  | Inl e \<Rightarrow> True)"

fun attempts_of :: "event list \<Rightarrow> nat" where
  "attempts_of [] = 0"
| "attempts_of (Attempt # es) = Suc (attempts_of es)"
| "attempts_of (e # es) = attempts_of es"

fun slept :: "event list \<Rightarrow> real" where
  "slept [] = 0"
| "slept (Sleep d # es) = d + slept es"
| "slept (e # es) = slept es"

definition cancels_of :: "string \<Rightarrow> event list \<Rightarrow> nat" where
  "cancels_of s es = length (filter (\<lambda>e. e = Cancel s) es)"

definition backoff_events :: "int \<Rightarrow> nat \<Rightarrow> event list" where
  "backoff_events retry_count attempt =
     (if int attempt < retry_count - 1 then [Attempt, Sleep (2 ^ attempt)] else [Attempt])"

text \<open>
  The timeout \<open>execute_query\<close> works with: the argument, else the configured
  \<open>max_execution_time\<close>, else 300.
\<close>

definition effective_timeout :: "config \<Rightarrow> int option \<Rightarrow> int" where
  "effective_timeout cfg timeout_arg =
     (case timeout_arg of Some n \<Rightarrow> n
      | None \<Rightarrow> (case max_execution_time (settings cfg) of Some n \<Rightarrow> n | None \<Rightarrow> 300))"

text \<open>Wall-clock time passes every bound.\<close>

definition clock_advances :: "remote \<Rightarrow> bool" where
  "clock_advances W \<longleftrightarrow> (\<forall>c x. \<exists>n. x < clock W (c + n))"

subsection \<open>Sample environments\<close>

text \<open>The state \<open>SplunkClient.__init__\<close> leaves, with an empty log.\<close>

definition SplunkClient_init :: client_state where
  "SplunkClient_init =
     \<lparr> connections_main = None, last_query_info = None, n_connect = 0, n_apps_list = 0,
       n_jobs = 0, n_indexes = 0, n_clock = 0, events = [] \<rparr>"

definition toy_cm :: CredentialManager where
  "toy_cm = CredentialManager_init toy_lib toy_host"

definition toy_config :: config where
  "toy_config =
     \<lparr> splunk_config = [''username'' \<mapsto> ''admin'', ''password'' \<mapsto> ''pw'',
                        ''host'' \<mapsto> ''splunk.local'', ''port'' \<mapsto> ''8089''],
       settings = \<lparr> default_earliest_time = None, default_latest_time = None,
                    max_results_setting = None, max_execution_time = None \<rparr> \<rparr>"

definition toy_stats :: stats where
  "toy_stats = \<lparr> scan_count = 2, event_count = 2, result_count = 2, run_duration = 1/4 \<rparr>"

text \<open>A job that is done at the first poll and returns two rows.\<close>

definition done_job :: job where
  "done_job =
     \<lparr> sid = ''sid1'', is_done_at = (\<lambda>k. Inr True), job_cancel = None,
       job_stats = Inr toy_stats,
       job_results = Inr \<lparr> rd_results = Some [[(''sourcetype'', Str ''syslog'')],
                                                [(''sourcetype'', Str '''')]],
                            rd_fields = None, rd_messages = None \<rparr> \<rparr>"

text \<open>
  The same job, whose result fetch fails: once with a connection reset (an \<open>OSError\<close>),
  once with an HTTP 503 answer.
\<close>

definition failing_results_job :: job where
  "failing_results_job =
     done_job\<lparr>job_results := Inl (OtherException ''Connection reset by peer'')\<rparr>"

definition http_failing_results_job :: job where
  "http_failing_results_job =
     done_job\<lparr>job_results := Inl (HTTPError 503 ''HTTP 503 Service Unavailable'')\<rparr>"

text \<open>
  A job that never reports done; and one whose \<open>cancel\<close> request fails with a
  connection reset.
\<close>

definition stuck_job :: job where
  "stuck_job = done_job\<lparr>is_done_at := (\<lambda>k. Inr False)\<rparr>"

definition stuck_job_cancel_fails :: job where
  "stuck_job_cancel_fails =
     stuck_job\<lparr>job_cancel := Some (OtherException ''Connection reset by peer'')\<rparr>"

text \<open>
  A service that accepts every connection and hands out the given job; the clock
  advances one second per reading.
\<close>

definition toy_remote :: "job \<Rightarrow> remote" where
  "toy_remote j =
     \<lparr> gethostbyname = (\<lambda>h. Inl GaiError), connect_attempt = (\<lambda>k. Inr 7),
       apps_list = (\<lambda>k. None), jobs_create = (\<lambda>k. Inr j),
       indexes_list = (\<lambda>k. Inr [''main'']), clock = (\<lambda>k. real k) \<rparr>"

definition flaky_remote :: remote where
  "flaky_remote =
     (toy_remote done_job)
       \<lparr>connect_attempt := (\<lambda>k. if k < 2 then Inl (TimeoutError [Txt ''timed out''])
                                 else Inr 7)\<rparr>"

text \<open>The same service, for a configured host name with an empty label.\<close>

definition bad_name_remote :: remote where
  "bad_name_remote =
     (toy_remote done_job)
       \<lparr>gethostbyname := (\<lambda>h. Inl (UnicodeError ''label empty or too long''))\<rparr>"

definition auth_remote :: remote where
  "auth_remote =
     (toy_remote done_job)\<lparr>connect_attempt := (\<lambda>k. Inl (HTTPError 401 ''Unauthorized''))\<rparr>"

definition down_remote :: remote where
  "down_remote =
     (toy_remote done_job)\<lparr>connect_attempt := (\<lambda>k. Inl (OtherException ''connection refused''))\<rparr>"

subsection \<open>Sample envelopes and rows\<close>

text \<open>A success envelope with two rows, as \<open>execute_query\<close> builds it.\<close>

definition sample_envelope :: envelope where
  "sample_envelope =
     \<lparr> q_status = ''success'', q_query = Some ''index=main'',
       q_time_range = Some (''-1h'', ''now''), q_statistics = Some toy_stats,
       q_results = Some [[(''sourcetype'', Str ''syslog'')], [(''sourcetype'', Str ''audit'')]],
       q_fields = Some [], q_messages = Some [],
       q_error = None, q_error_type = None \<rparr>"

text \<open>
  Two rows that carry the same multivalue field \<open>tags\<close> with the single value \<open>a\<close>,
  as the service returns for \<open>stats values(tag) as tags\<close>.
\<close>

definition multivalue_rows :: "row list" where
  "multivalue_rows = [[(''tags'', MV [''a''])], [(''tags'', MV [''a''])]]"

subsection \<open>Invariants of the field summary\<close>

text \<open>
  \<open>acc_ok\<close>: no collected field name starts with an underscore, and no field holds
  more than five sample values. \<open>acc_distinct\<close>: the sample values of every field are
  pairwise different. \<open>all_strings\<close>: every value of every row is a string.
\<close>

definition acc_ok :: "(string \<times> field_acc) list \<Rightarrow> bool" where
  "acc_ok fs \<longleftrightarrow>
     (\<forall>fa \<in> set fs. \<not> startswith (fst fa) ''_'' \<and> length (sample_values (snd fa)) \<le> 5)"

definition acc_distinct :: "(string \<times> field_acc) list \<Rightarrow> bool" where
  "acc_distinct fs \<longleftrightarrow> (\<forall>fa \<in> set fs. distinct (sample_values (snd fa)))"

definition all_strings :: "row list \<Rightarrow> bool" where
  "all_strings rows \<longleftrightarrow> (\<forall>r \<in> set rows. \<forall>kv \<in> set r. \<exists>s. snd kv = Str s)"

section \<open>Verified properties\<close>

subsection \<open>Credential protection\<close>

lemma toy_lib_sound: "lib_sound toy_lib"
  by (simp add: lib_sound_def toy_lib_def bytes_append_def)

lemma machine_hash_of_init:
  "machine_hash_of (CredentialManager_init L h) =
     take 16 (sha256_hexdigest L (str_encode L (get_machine_id L h)))"
  by (simp add: CredentialManager_init_def Let_def)

lemma machine_id_of_init: "machine_id_of (CredentialManager_init L h) = get_machine_id L h"
  by (simp add: CredentialManager_init_def Let_def)

text \<open>
  C1 at its failing input. In every library in which the module
  \<open>cryptography.hazmat.primitives.kdf.pbkdf2\<close> defines no name \<open>PBKDF2\<close> (the
  \<open>cryptography\<close> package defines \<open>PBKDF2HMAC\<close> only), loading \<open>encrypt_password.py\<close>
  raises \<open>ImportError\<close> at line 21: for every host, salt, nonce and password
  \<open>encrypt_password\<close> yields that exception and no ciphertext, so there is nothing to
  decrypt, where the claim promises a round trip for every secret.
\<close>

theorem encrypt_password_import_fails:
  "encrypt_password (L\<lparr>import_PBKDF2 := None\<rparr>) h urandom nonce password
     = Inl (ImportError ''PBKDF2'')"
  by (simp add: encrypt_password_def module_imports_def)

text \<open>
  The round trip itself is sound once the import resolves: if the name \<open>PBKDF2\<close> were
  bound to the class \<open>credential_manager.py\<close> uses, and the libraries behave as
  documented (\<open>lib_sound\<close>), then for every password (a string of code points below
  256), salt and nonce \<open>encrypt_password\<close> returns its dictionary, and \<open>CredentialManager.decrypt_password\<close>
  of a manager created on the same host, given the three values under the
  configuration keys that \<open>main\<close> prints them under, returns exactly the password; so
  does \<open>get_credentials\<close>, together with the user name.
\<close>

lemma round_trip_when_import_resolves:
  assumes "lib_sound L" and "import_PBKDF2 L = Some (pbkdf2_derive L)"
  shows "\<exists>encrypted_data.
           encrypt_password L h urandom nonce password = Inr encrypted_data \<and>
           snd (decrypt_password L (CredentialManager_init L h)
                  (printed_config username encrypted_data)) = Inr password \<and>
           snd (get_credentials L (CredentialManager_init L h)
                  (printed_config username encrypted_data))
             = Inr \<lparr> cred_username = username, cred_password = password \<rparr>"
proof -
  let ?mid = "get_machine_id L h"
  let ?cm = "CredentialManager_init L h"
  let ?key = "urlsafe_b64encode L (pbkdf2_derive L urandom (str_encode L ?mid))"
  from assms(1) obtain f where f: "Fernet L ?key = Inr f"
    and fd: "\<And>nonce m. fernet_decrypt L f (fernet_encrypt L f nonce m) = Inr m"
    unfolding lib_sound_def by blast
  let ?tok = "fernet_encrypt L f nonce (str_encode L password)"
  from assms(1) obtain es where es: "bytes_decode L (urlsafe_b64encode L ?tok) = Inr es"
    and es': "str_encode L es = urlsafe_b64encode L ?tok"
    unfolding lib_sound_def by blast
  from assms(1) obtain ss where ss: "bytes_decode L (urlsafe_b64encode L urandom) = Inr ss"
    and ss': "str_encode L ss = urlsafe_b64encode L urandom"
    unfolding lib_sound_def by blast
  from assms(1) have b64: "\<And>b. urlsafe_b64decode L (urlsafe_b64encode L b) = Inr b"
    and utf: "\<And>s. bytes_decode L (str_encode L s) = Inr s"
    unfolding lib_sound_def by blast+
  let ?hash = "take 16 (sha256_hexdigest L (str_encode L ?mid))"
  let ?d = "[''encrypted'' \<mapsto> es, ''salt'' \<mapsto> ss, ''machine_hash'' \<mapsto> ?hash]"
  have enc: "encrypt_password L h urandom nonce password = Inr ?d"
    by (simp add: encrypt_password_def module_imports_def assms(2) derive_key_def Let_def
          f es ss)
  have any: "snd (decrypt_password L ?cm m) = Inr password"
    if "m ''machine_hash'' = Some ?hash" and "m ''password_salt'' = Some ss"
      and "m ''password_encrypted'' = Some es" for m
    using that
    by (simp add: decrypt_password_def machine_hash_of_init machine_id_of_init
          cm_derive_key_def Let_def es' ss' b64 f fd utf)
  have dec: "snd (decrypt_password L ?cm (printed_config username ?d)) = Inr password"
    by (rule any) (simp_all add: printed_config_def)
  have "snd (decrypt_password L ?cm
               [''password_encrypted'' \<mapsto> es, ''password_salt'' \<mapsto> ss,
                ''machine_hash'' \<mapsto> ?hash]) = Inr password"
    by (rule any) simp_all
  then have cred: "snd (get_credentials L ?cm (printed_config username ?d))
                     = Inr \<lparr> cred_username = username, cred_password = password \<rparr>"
    by (simp add: get_credentials_def printed_config_def Let_def)
  from enc dec cred show ?thesis by blast
qed

lemma round_trip_when_import_resolves_instance:
  "\<exists>encrypted_data.
     encrypt_password (toy_lib\<lparr>import_PBKDF2 := Some (pbkdf2_derive toy_lib)\<rparr>) toy_host
         (Bytes ''0123456789abcdef'') (Bytes ''nonce'') ''s3cret'' = Inr encrypted_data \<and>
     snd (decrypt_password (toy_lib\<lparr>import_PBKDF2 := Some (pbkdf2_derive toy_lib)\<rparr>)
            (CredentialManager_init (toy_lib\<lparr>import_PBKDF2 := Some (pbkdf2_derive toy_lib)\<rparr>)
               toy_host)
            (printed_config ''admin'' encrypted_data)) = Inr ''s3cret''"
proof -
  let ?L = "toy_lib\<lparr>import_PBKDF2 := Some (pbkdf2_derive toy_lib)\<rparr>"
  have s: "lib_sound ?L"
    using toy_lib_sound by (simp add: lib_sound_def)
  have i: "import_PBKDF2 ?L = Some (pbkdf2_derive ?L)" by simp
  from round_trip_when_import_resolves [OF s i] show ?thesis by blast
qed

text \<open>
  C2. For any libraries whatever: when the \<open>machine_hash\<close> entry of the encrypted data
  is missing or differs from the first 16 characters of the SHA-256 hex digest of the
  host's machine id, \<open>decrypt_password\<close> of a manager created on that host raises the
  different-machine \<open>ValueError\<close>, and the list of cryptographic calls it made (key
  derivation, Fernet construction, decryption) is empty.
\<close>

theorem decrypt_mismatch_fails_fast:
  assumes "encrypted_data ''machine_hash'' \<noteq>
             Some (take 16 (sha256_hexdigest L (str_encode L (get_machine_id L h))))"
  shows "decrypt_password L (CredentialManager_init L h) encrypted_data
           = ([], Inl (ValueError different_machine_msg))"
  using assms by (simp add: decrypt_password_def machine_hash_of_init)

theorem decrypt_mismatch_fails_fast_witness:
  "decrypt_password toy_lib (CredentialManager_init toy_lib toy_host)
     [''password_encrypted'' \<mapsto> ''terces3s'', ''password_salt'' \<mapsto> ''0123456789abcdef'',
      ''machine_hash'' \<mapsto> ''ffffffffffffffff'']
   = ([], Inl (ValueError different_machine_msg))"
proof -
  have "[''password_encrypted'' \<mapsto> ''terces3s'', ''password_salt'' \<mapsto> ''0123456789abcdef'',
         ''machine_hash'' \<mapsto> ''ffffffffffffffff''] ''machine_hash''
        \<noteq> Some (take 16 (sha256_hexdigest toy_lib
                    (str_encode toy_lib (get_machine_id toy_lib toy_host))))"
    by (simp add: toy_lib_def toy_host_def get_machine_id_def bytes_append_def)
  then show ?thesis
    by (rule decrypt_mismatch_fails_fast)
qed

subsection \<open>Connection retries\<close>

lemma attempts_of_append: "attempts_of (xs @ ys) = attempts_of xs + attempts_of ys"
  by (induction xs rule: attempts_of.induct) auto

lemma slept_append: "slept (xs @ ys) = slept xs + slept ys"
  by (induction xs rule: slept.induct) auto

lemma connect_loop_transient_step:
  assumes "transient (connect_attempt W (n_connect st))"
  shows "\<exists>le'. connect_loop W rc (a # rest) le st =
           connect_loop W rc rest le'
             (st\<lparr>n_connect := n_connect st + 1,
                  events := events st @ backoff_events rc a\<rparr>)"
  using assms
  by (auto simp: transient_def backoff_events_def log_event_def Let_def
           split: sum.splits exn.splits)

lemma connect_loop_success_step:
  assumes "connect_attempt W (n_connect st) = Inr s"
  shows "connect_loop W rc (a # rest) le st =
           (Inr s, st\<lparr>n_connect := n_connect st + 1, events := events st @ [Attempt]\<rparr>)"
  using assms by (simp add: log_event_def Let_def)

lemma connect_loop_succeeds:
  assumes "\<forall>k<N. transient (connect_attempt W (n_connect st + k))"
    and "connect_attempt W (n_connect st + N) = Inr s"
    and "a + N < n"
  shows "\<exists>st'. connect_loop W rc [a ..< n] le st = (Inr s, st') \<and>
           events st' = events st @ concat (map (backoff_events rc) [a ..< a + N]) @ [Attempt]"
  using assms
proof (induction N arbitrary: a st le)
  case 0
  then have "[a ..< n] = a # [Suc a ..< n]" by (simp add: upt_conv_Cons)
  with 0 show ?case by (simp add: connect_loop_success_step del: connect_loop.simps)
next
  case (Suc N)
  then have l: "[a ..< n] = a # [Suc a ..< n]" by (simp add: upt_conv_Cons)
  from Suc.prems(1) have t: "transient (connect_attempt W (n_connect st))"
    by (metis add.right_neutral zero_less_Suc)
  from connect_loop_transient_step [OF t] obtain le' where
    step: "connect_loop W rc (a # [Suc a ..< n]) le st =
           connect_loop W rc [Suc a ..< n] le'
             (st\<lparr>n_connect := n_connect st + 1, events := events st @ backoff_events rc a\<rparr>)"
    by blast
  let ?st = "st\<lparr>n_connect := n_connect st + 1, events := events st @ backoff_events rc a\<rparr>"
  have "\<forall>k<N. transient (connect_attempt W (n_connect ?st + k))"
    using Suc.prems(1) by (auto simp: less_Suc_eq_0_disj) 
  moreover have "connect_attempt W (n_connect ?st + N) = Inr s"
    using Suc.prems(2) by simp
  moreover have "Suc a + N < n" using Suc.prems(3) by simp
  ultimately obtain st' where
    r: "connect_loop W rc [Suc a ..< n] le' ?st = (Inr s, st')"
    and e: "events st' = events ?st @ concat (map (backoff_events rc) [Suc a ..< Suc a + N]) @ [Attempt]"
    using Suc.IH [of ?st "Suc a" le'] by blast
  have "[a ..< a + Suc N] = a # [Suc a ..< Suc a + N]" by (simp add: upt_conv_Cons)
  with l step r e show ?case by (simp del: connect_loop.simps)
qed


lemma connect_loop_exhausted:
  assumes "\<forall>k<n - a. transient (connect_attempt W (n_connect st + k))"
  shows "\<exists>le' st'. connect_loop W rc [a ..< n] le st =
           (Inl (ConnectionError [Txt ''Failed to connect to Splunk after '', Num rc,
                                  Txt '' attempts. Last error: '', le']), st') \<and>
           events st' = events st @ concat (map (backoff_events rc) [a ..< n])"
  using assms
proof (induction "n - a" arbitrary: a st le)
  case 0
  then show ?case by simp
next
  case (Suc d)
  then have l: "[a ..< n] = a # [Suc a ..< n]" by (simp add: upt_conv_Cons)
  from Suc.prems Suc.hyps(2) have t: "transient (connect_attempt W (n_connect st))"
    by (metis add.right_neutral zero_less_Suc)
  from connect_loop_transient_step [OF t] obtain le' where
    step: "connect_loop W rc (a # [Suc a ..< n]) le st =
           connect_loop W rc [Suc a ..< n] le'
             (st\<lparr>n_connect := n_connect st + 1, events := events st @ backoff_events rc a\<rparr>)"
    by blast
  let ?st = "st\<lparr>n_connect := n_connect st + 1, events := events st @ backoff_events rc a\<rparr>"
  have "\<forall>k<n - Suc a. transient (connect_attempt W (n_connect ?st + k))"
  proof (intro allI impI)
    fix k assume "k < n - Suc a"
    then have "Suc k < n - a" by simp
    with Suc.prems have "transient (connect_attempt W (n_connect st + Suc k))" by blast
    then show "transient (connect_attempt W (n_connect ?st + k))" by simp
  qed
  moreover have "d = n - Suc a" using Suc.hyps(2) by simp
  ultimately obtain le'' st' where
    r: "connect_loop W rc [Suc a ..< n] le' ?st =
          (Inl (ConnectionError [Txt ''Failed to connect to Splunk after '', Num rc,
                                 Txt '' attempts. Last error: '', le'']), st')"
    and e: "events st' = events ?st @ concat (map (backoff_events rc) [Suc a ..< n])"
    using Suc.hyps(1) [of "Suc a" ?st le'] by blast
  from l step r e show ?case by (simp del: connect_loop.simps)
qed

lemma attempts_of_backoff: "attempts_of (concat (map (backoff_events rc) [a ..< b])) = b - a"
proof (induction b)
  case 0
  then show ?case by simp
next
  case (Suc b)
  show ?case
  proof (cases "a \<le> b")
    case True
    with Suc show ?thesis
      by (simp add: attempts_of_append backoff_events_def Suc_diff_le)
  next
    case False
    then show ?thesis by simp
  qed
qed

lemma slept_backoff_all:
  "int b \<le> rc - 1 \<Longrightarrow> slept (concat (map (backoff_events rc) [0 ..< b])) = (\<Sum>k<b. 2 ^ k)"
  by (induction b) (simp_all add: slept_append backoff_events_def)

lemma slept_backoff_exhausted:
  "slept (concat (map (backoff_events rc) [0 ..< nat rc])) = (\<Sum>k<nat rc - 1. 2 ^ k)"
proof (cases "0 < rc")
  case True
  then obtain b where b: "nat rc = Suc b" by (metis Suc_pred zero_less_nat_eq)
  then have "int b \<le> rc - 1" by linarith
  from slept_backoff_all [OF this] b show ?thesis
    by (simp add: slept_append backoff_events_def)
next
  case False
  then show ?thesis by simp
qed

text \<open>
  C5. When the configuration yields credentials, host and port, the lookup of the
  host name returns or fails with \<open>socket.gaierror\<close>, and the next \<open>N\<close>
  connection attempts fail transiently and the one after them succeeds, then
  \<open>_create_connection\<close> returns that connection if and only if \<open>N < retry_count\<close>, and
  raises \<open>ConnectionError\<close> otherwise; it makes \<open>N + 1\<close> attempts in the first case and
  \<open>retry_count\<close> (none when that is not positive) in the second, and the time it sleeps
  is the sum of \<open>2 ^ k\<close> for \<open>k\<close> below the number of attempts minus one: no sleep
  follows the last attempt.
\<close>

theorem retry_bound:
  assumes "snd (get_credentials L cm (splunk_config cfg)) = Inr creds"
    and "splunk_config cfg ''host'' = Some hostname"
    and "splunk_config cfg ''port'' = Some port"
    and "resolve_hostname W hostname = Inr host"
    and "\<forall>k<N. transient (connect_attempt W (n_connect st + k))"
    and "connect_attempt W (n_connect st + N) = Inr s"
  shows "\<exists>r st' new.
           create_connection L cm cfg W retry_count st = (r, st') \<and>
           (r = Inr s) = (int N < retry_count) \<and>
           (\<exists>m. r = Inl (ConnectionError m)) = (\<not> int N < retry_count) \<and>
           events st' = events st @ new \<and>
           attempts_of new = (if int N < retry_count then N + 1 else nat retry_count) \<and>
           slept new = (\<Sum>k<attempts_of new - 1. 2 ^ k)"
proof -
  have cc: "create_connection L cm cfg W retry_count st =
              connect_loop W retry_count [0 ..< nat retry_count] (Txt ''None'') st"
    using assms(1-4) by (simp add: create_connection_def Let_def)
  show ?thesis
  proof (cases "int N < retry_count")
    case True
    then have "0 + N < nat retry_count" by simp
    from connect_loop_succeeds [OF assms(5) assms(6) this, of retry_count "Txt ''None''"]
    obtain st' where r: "connect_loop W retry_count [0 ..< nat retry_count] (Txt ''None'') st
                           = (Inr s, st')"
      and e: "events st' = events st @ concat (map (backoff_events retry_count) [0 ..< 0 + N])
                @ [Attempt]"
      by blast
    let ?new = "concat (map (backoff_events retry_count) [0 ..< N]) @ [Attempt]"
    have a: "attempts_of ?new = N + 1"
      by (simp add: attempts_of_append attempts_of_backoff)
    from True have "int N \<le> retry_count - 1" by simp
    then have "slept ?new = (\<Sum>k<N. 2 ^ k)"
      by (simp add: slept_append slept_backoff_all)
    with a True cc r e show ?thesis by simp
  next
    case False
    then have "\<forall>k<nat retry_count - 0. transient (connect_attempt W (n_connect st + k))"
      using assms(5) by auto
    from connect_loop_exhausted [OF this, of retry_count "Txt ''None''"]
    obtain le' st' where
      r: "connect_loop W retry_count [0 ..< nat retry_count] (Txt ''None'') st =
            (Inl (ConnectionError [Txt ''Failed to connect to Splunk after '', Num retry_count,
                                   Txt '' attempts. Last error: '', le']), st')"
      and e: "events st' = events st @ concat (map (backoff_events retry_count)
                                                  [0 ..< nat retry_count])"
      by blast
    let ?new = "concat (map (backoff_events retry_count) [0 ..< nat retry_count])"
    have a: "attempts_of ?new = nat retry_count"
      by (simp add: attempts_of_backoff)
    have "slept ?new = (\<Sum>k<nat retry_count - 1. 2 ^ k)"
      by (rule slept_backoff_exhausted)
    with a False cc r e show ?thesis by simp
  qed
qed

text \<open>
  C6. When the configuration yields credentials, host and port, the lookup of the
  host name returns or fails with \<open>socket.gaierror\<close>, \<open>retry_count\<close> is
  positive and the first connection attempt is rejected with HTTP 401, then
  \<open>_create_connection\<close> raises the authentication \<open>ConnectionError\<close> after exactly
  that one attempt: the log gains one \<open>Attempt\<close> and no \<open>Sleep\<close>.
\<close>

theorem auth_rejection_not_retried:
  assumes "snd (get_credentials L cm (splunk_config cfg)) = Inr creds"
    and "splunk_config cfg ''host'' = Some hostname"
    and "splunk_config cfg ''port'' = Some port"
    and "resolve_hostname W hostname = Inr host"
    and "0 < retry_count"
    and "connect_attempt W (n_connect st) = Inl (HTTPError 401 m)"
  shows "create_connection L cm cfg W retry_count st =
           (Inl (ConnectionError [Txt ''Authentication failed: Invalid credentials'']),
            st\<lparr>n_connect := n_connect st + 1, events := events st @ [Attempt]\<rparr>)"
proof -
  from assms(5) have "[0 ..< nat retry_count] = 0 # [Suc 0 ..< nat retry_count]"
    by (simp add: upt_conv_Cons)
  with assms show ?thesis
    by (simp add: create_connection_def Let_def log_event_def)
qed


lemma toy_credentials:
  "snd (get_credentials toy_lib toy_cm (splunk_config toy_config))
     = Inr \<lparr> cred_username = ''admin'', cred_password = ''pw'' \<rparr>"
  by (simp add: get_credentials_def toy_config_def)

lemma toy_host_port:
  "splunk_config toy_config ''host'' = Some ''splunk.local''"
  "splunk_config toy_config ''port'' = Some ''8089''"
  by (simp_all add: toy_config_def)

lemma toy_resolves:
  "resolve_hostname (toy_remote j) hostname = Inr hostname"
  "resolve_hostname flaky_remote hostname = Inr hostname"
  "resolve_hostname auth_remote hostname = Inr hostname"
  "resolve_hostname down_remote hostname = Inr hostname"
  by (simp_all add: resolve_hostname_def toy_remote_def flaky_remote_def auth_remote_def
        down_remote_def)

text \<open>
  Without that lookup nothing is attempted: a configured host name with an empty label
  makes \<open>gethostbyname\<close> raise \<open>UnicodeError\<close>, which \<open>_resolve_hostname\<close> does not
  catch, and \<open>_create_connection\<close> raises it before the first attempt.
\<close>

lemma bad_host_name_escapes:
  "create_connection toy_lib toy_cm toy_config bad_name_remote 3 SplunkClient_init =
     (Inl (UnicodeError ''label empty or too long''), SplunkClient_init)"
  by (simp add: create_connection_def toy_credentials toy_host_port resolve_hostname_def
        bad_name_remote_def toy_remote_def)

theorem retry_bound_witness:
  "\<exists>r st' new.
     create_connection toy_lib toy_cm toy_config flaky_remote 3 SplunkClient_init = (r, st') \<and>
     r = Inr 7 \<and> events st' = new \<and> attempts_of new = 3 \<and> slept new = 3"
proof -
  have t: "\<forall>k<2. transient (connect_attempt flaky_remote (n_connect SplunkClient_init + k))"
    by (simp add: flaky_remote_def transient_def SplunkClient_init_def)
  have s: "connect_attempt flaky_remote (n_connect SplunkClient_init + 2) = Inr 7"
    by (simp add: flaky_remote_def SplunkClient_init_def)
  from retry_bound [OF toy_credentials toy_host_port toy_resolves(2) t s, of 3]
  obtain r st' new where
    c: "create_connection toy_lib toy_cm toy_config flaky_remote 3 SplunkClient_init = (r, st')"
    and r: "(r = Inr 7) = (int 2 < 3)"
    and e: "events st' = events SplunkClient_init @ new"
    and a: "attempts_of new = (if int 2 < 3 then 2 + 1 else nat 3)"
    and b: "slept new = (\<Sum>k<attempts_of new - 1. 2 ^ k)"
    by blast
  from a have a': "attempts_of new = 3" by simp
  have "(\<Sum>k<(2::nat). (2::real) ^ k) = 3"
    by (simp add: lessThan_Suc numeral_2_eq_2)
  with a' b have "slept new = 3" by simp
  with c r e a' show ?thesis by (simp add: SplunkClient_init_def)
qed

theorem auth_rejection_not_retried_witness:
  "create_connection toy_lib toy_cm toy_config auth_remote 3 SplunkClient_init =
     (Inl (ConnectionError [Txt ''Authentication failed: Invalid credentials'']),
      SplunkClient_init\<lparr>n_connect := 1, events := [Attempt]\<rparr>)"
proof -
  have a: "connect_attempt auth_remote (n_connect SplunkClient_init)
             = Inl (HTTPError 401 ''Unauthorized'')"
    by (simp add: auth_remote_def SplunkClient_init_def)
  have p: "(0::int) < 3" by simp
  from auth_rejection_not_retried [OF toy_credentials toy_host_port toy_resolves(3) p a]
  show ?thesis by (simp add: SplunkClient_init_def)
qed

subsection \<open>Query execution\<close>

lemma wait_for_job_times_out:
  assumes "\<forall>i\<le>n. is_done_at j (k + i) = Inr False"
    and "\<forall>i<n. clock W (n_clock st + i) - start \<le> real_of_int t"
    and "clock W (n_clock st + n) - start > real_of_int t"
    and "job_cancel j = None \<or> (\<exists>m. job_cancel j = Some (TimeoutError m))"
  shows "\<exists>m. wait_for_job W j start t k st =
           Some (Inl (TimeoutError m),
                 st\<lparr>n_clock := n_clock st + n + 1,
                    events := events st @ replicate n (Sleep (1/2)) @ [Cancel (sid j)]\<rparr>)"
  using assms
proof (induction n arbitrary: k st)
  case 0
  then have p0: "is_done_at j k = Inr False" and c0: "clock W (n_clock st) - start > real_of_int t"
    by simp_all
  from "0.prems"(4) show ?case
  proof
    assume "job_cancel j = None"
    with p0 c0 show ?thesis
      by (subst wait_for_job.simps) (simp add: log_event_def Let_def)
  next
    assume "\<exists>m. job_cancel j = Some (TimeoutError m)"
    then obtain m where "job_cancel j = Some (TimeoutError m)" by blast
    with p0 c0 show ?thesis
      by (subst wait_for_job.simps) (simp add: log_event_def Let_def)
  qed
next
  case (Suc n)
  from Suc.prems(1) have p0: "is_done_at j k = Inr False"
    by (metis add.right_neutral le0)
  from Suc.prems(2) have c0: "\<not> clock W (n_clock st) - start > real_of_int t"
    by (metis add.right_neutral not_less zero_less_Suc)
  let ?st = "log_event (Sleep (1/2)) (st\<lparr>n_clock := n_clock st + 1\<rparr>)"
  have step: "wait_for_job W j start t k st = wait_for_job W j start t (k + 1) ?st"
    using p0 c0 by (subst wait_for_job.simps) (simp add: Let_def)
  have a: "\<forall>i\<le>n. is_done_at j (k + 1 + i) = Inr False"
    using Suc.prems(1) by (metis Suc_le_mono add_Suc_right add_Suc_shift Suc_eq_plus1)
  have b: "\<forall>i<n. clock W (n_clock ?st + i) - start \<le> real_of_int t"
  proof (intro allI impI)
    fix i assume "i < n"
    then have "Suc i < Suc n" by simp
    with Suc.prems(2) have "clock W (n_clock st + Suc i) - start \<le> real_of_int t" by blast
    then show "clock W (n_clock ?st + i) - start \<le> real_of_int t"
      by (simp add: log_event_def)
  qed
  have c: "clock W (n_clock ?st + n) - start > real_of_int t"
    using Suc.prems(3) by (simp add: log_event_def)
  from Suc.IH [OF a b c Suc.prems(4)] step show ?case
    by (simp add: log_event_def replicate_app_Cons_same)
qed

lemma wait_for_job_returns:
  assumes "real_of_int t < clock W (n_clock st + n) - start"
  shows "wait_for_job W j start t k st \<noteq> None"
  using assms
proof (induction n arbitrary: k st)
  case 0
  then show ?case
    by (subst wait_for_job.simps) (simp add: Let_def split: sum.splits option.splits)
next
  case (Suc n)
  let ?st = "log_event (Sleep (1/2)) (st\<lparr>n_clock := n_clock st + 1\<rparr>)"
  from Suc.prems have "real_of_int t < clock W (n_clock ?st + n) - start"
    by (simp add: log_event_def)
  from Suc.IH [OF this] have "wait_for_job W j start t (k + 1) ?st \<noteq> None" .
  then show ?case
    by (subst wait_for_job.simps) (simp add: Let_def split: sum.splits option.splits)
qed

lemma clock_advances_returns:
  assumes "clock_advances W"
  shows "wait_for_job W j start t k st \<noteq> None"
proof -
  from assms obtain n where "real_of_int t + start < clock W (n_clock st + n)"
    unfolding clock_advances_def by blast
  then have "real_of_int t < clock W (n_clock st + n) - start" by simp
  then show ?thesis by (rule wait_for_job_returns)
qed


lemma wait_for_job_done:
  "is_done_at j k = Inr True \<Longrightarrow> wait_for_job W j start t k st = Some (Inr (), st)"
  by (subst wait_for_job.simps) simp

lemma execute_query_returns:
  assumes "clock_advances W"
  shows "\<exists>r st'. execute_query L cm cfg W query earliest latest max_results timeout_arg st
           = Some (r, st')"
proof -
  obtain c st1 where gc: "get_connection L cm cfg W False st = (c, st1)"
    by (cases "get_connection L cm cfg W False st")
  show ?thesis
  proof (cases c)
    case (Inl e)
    with gc show ?thesis by (simp add: execute_query_def)
  next
    case (Inr service)
    show ?thesis
    proof (cases "jobs_create W (n_jobs st1)")
      case (Inl e)
      with gc Inr show ?thesis by (simp add: execute_query_def Let_def)
    next
      case j: (Inr j)
      from clock_advances_returns [OF assms] obtain a st4 where
        w: "wait_for_job W j (clock W (n_clock st1)) (effective_timeout cfg timeout_arg) 0
              (st1\<lparr>n_jobs := n_jobs st1 + 1, n_clock := n_clock st1 + 1\<rparr>) = Some (a, st4)"
        by fastforce
      show ?thesis
      proof (cases a)
        case (Inl e)
        with gc Inr j w show ?thesis
          by (simp add: execute_query_def Let_def effective_timeout_def)
      next
        case u: (Inr u)
        with gc Inr j w show ?thesis
          by (cases "job_stats j"; cases "job_results j"; cases "job_cancel j")
             (simp_all add: execute_query_def Let_def effective_timeout_def)
      qed
    qed
  qed
qed

text \<open>
  C4, as the code has it. Once the connection is there and the job is created: if every
  \<open>is_done()\<close> call up to the first clock reading that lies more than the timeout after
  the start returns false, that reading comes after \<open>n\<close> readings within the timeout,
  and the \<open>cancel\<close> request returns normally or raises \<open>TimeoutError\<close>, then
  \<open>execute_query\<close> returns an error envelope of type \<open>timeout\<close>, and what it adds to
  the log is \<open>n\<close> polling sleeps followed by one \<open>cancel\<close> of the job: the job is
  cancelled exactly once.
\<close>

theorem timeout_cancels_once:
  assumes "get_connection L cm cfg W False st = (Inr service, st1)"
    and "jobs_create W (n_jobs st1) = Inr j"
    and "\<forall>i\<le>n. is_done_at j i = Inr False"
    and "\<forall>i<n. clock W (n_clock st1 + 1 + i) - clock W (n_clock st1)
               \<le> real_of_int (effective_timeout cfg timeout_arg)"
    and "clock W (n_clock st1 + 1 + n) - clock W (n_clock st1)
           > real_of_int (effective_timeout cfg timeout_arg)"
    and "job_cancel j = None \<or> (\<exists>m. job_cancel j = Some (TimeoutError m))"
  shows "\<exists>env st'.
           execute_query L cm cfg W query earliest latest max_results timeout_arg st
             = Some (Inr env, st') \<and>
           q_status env = ''error'' \<and> q_error_type env = Some ''timeout'' \<and>
           events st' = events st1 @ replicate n (Sleep (1/2)) @ [Cancel (sid j)] \<and>
           cancels_of (sid j) (events st') = cancels_of (sid j) (events st1) + 1"
proof -
  let ?t = "effective_timeout cfg timeout_arg"
  let ?st3 = "st1\<lparr>n_jobs := n_jobs st1 + 1, n_clock := n_clock st1 + 1\<rparr>"
  have a: "\<forall>i\<le>n. is_done_at j (0 + i) = Inr False" using assms(3) by simp
  have b: "\<forall>i<n. clock W (n_clock ?st3 + i) - clock W (n_clock st1) \<le> real_of_int ?t"
    using assms(4) by simp
  have c: "clock W (n_clock ?st3 + n) - clock W (n_clock st1) > real_of_int ?t"
    using assms(5) by simp
  from wait_for_job_times_out [OF a b c assms(6)] obtain m where
    w: "wait_for_job W j (clock W (n_clock st1)) ?t 0 ?st3 =
          Some (Inl (TimeoutError m),
                ?st3\<lparr>n_clock := n_clock ?st3 + n + 1,
                     events := events ?st3 @ replicate n (Sleep (1/2)) @ [Cancel (sid j)]\<rparr>)"
    by blast
  have "cancels_of (sid j) (events st1 @ replicate n (Sleep (1/2)) @ [Cancel (sid j)])
          = cancels_of (sid j) (events st1) + 1"
    by (simp add: cancels_of_def)
  with w assms(1,2) show ?thesis
    by (simp add: execute_query_def Let_def effective_timeout_def query_handler_def
          error_envelope_def)
qed

lemma upt_3: "[0 ..< 3] = [0, 1, 2]"
  by (simp add: upt_rec)

lemma toy_remote_simps:
  "connect_attempt (toy_remote j) k = Inr 7"
  "apps_list (toy_remote j) k = None"
  "jobs_create (toy_remote j) k = Inr j"
  "indexes_list (toy_remote j) k = Inr [''main'']"
  "clock (toy_remote j) k = real k"
  by (simp_all add: toy_remote_def)

lemma init_simps:
  "connections_main SplunkClient_init = None"
  "n_connect SplunkClient_init = 0"
  "n_apps_list SplunkClient_init = 0"
  "n_jobs SplunkClient_init = 0"
  "n_indexes SplunkClient_init = 0"
  "n_clock SplunkClient_init = 0"
  "events SplunkClient_init = []"
  by (simp_all add: SplunkClient_init_def)

lemma toy_get_connection:
  "get_connection toy_lib toy_cm toy_config (toy_remote j) False SplunkClient_init =
     (Inr 7, SplunkClient_init\<lparr>connections_main := Some 7, n_connect := 1, n_apps_list := 1,
                               events := [Attempt]\<rparr>)"
  by (simp add: get_connection_def create_connection_def toy_credentials toy_host_port
        resolve_hostname_def upt_3 toy_remote_def SplunkClient_init_def log_event_def Let_def)

lemma down_get_connection:
  "\<exists>e st1. get_connection toy_lib toy_cm toy_config down_remote False SplunkClient_init
             = (Inl e, st1)"
  by (simp add: get_connection_def create_connection_def toy_credentials toy_host_port
        resolve_hostname_def upt_3 down_remote_def toy_remote_def SplunkClient_init_def log_event_def
        Let_def)


text \<open>
  The theorem at a job that is never done, a timeout of one second and a clock that
  advances one second per reading.
\<close>

theorem timeout_cancels_once_witness:
  "\<exists>env st'.
     execute_query toy_lib toy_cm toy_config (toy_remote stuck_job) ''index=main''
         None None None (Some 1) SplunkClient_init = Some (Inr env, st') \<and>
     q_status env = ''error'' \<and> q_error_type env = Some ''timeout'' \<and>
     events st' = [Attempt, Sleep (1/2), Cancel ''sid1'']"
proof -
  let ?st1 = "SplunkClient_init\<lparr>connections_main := Some 7, n_connect := 1, n_apps_list := 1,
                                events := [Attempt]\<rparr>"
  have j: "jobs_create (toy_remote stuck_job) (n_jobs ?st1) = Inr stuck_job"
    by (simp add: toy_remote_def)
  have p: "\<forall>i\<le>1. is_done_at stuck_job i = Inr False"
    by (simp add: stuck_job_def done_job_def)
  have w: "\<forall>i<1. clock (toy_remote stuck_job) (n_clock ?st1 + 1 + i)
                   - clock (toy_remote stuck_job) (n_clock ?st1)
                 \<le> real_of_int (effective_timeout toy_config (Some 1))"
    by (simp add: toy_remote_def effective_timeout_def SplunkClient_init_def)
  have a: "clock (toy_remote stuck_job) (n_clock ?st1 + 1 + 1)
             - clock (toy_remote stuck_job) (n_clock ?st1)
           > real_of_int (effective_timeout toy_config (Some 1))"
    by (simp add: toy_remote_def effective_timeout_def SplunkClient_init_def)
  have c: "job_cancel stuck_job = None \<or> (\<exists>m. job_cancel stuck_job = Some (TimeoutError m))"
    by (simp add: stuck_job_def done_job_def)
  from timeout_cancels_once [OF toy_get_connection j p w a c, of "''index=main''" None None None]
  obtain env st' where
    "execute_query toy_lib toy_cm toy_config (toy_remote stuck_job) ''index=main''
         None None None (Some 1) SplunkClient_init = Some (Inr env, st')"
    "q_status env = ''error''" "q_error_type env = Some ''timeout''"
    "events st' = events ?st1 @ replicate 1 (Sleep (1/2)) @ [Cancel (sid stuck_job)]"
    by blast
  then show ?thesis
    by (simp add: stuck_job_def done_job_def)
qed

text \<open>
  C4 as stated fails when the \<open>cancel\<close> request itself fails with an exception that is
  neither a timeout nor an HTTP error: the job below never reports done, the deadline
  passes, \<open>job.cancel()\<close> raises on a reset connection before \<open>TimeoutError\<close> is
  raised, the last \<open>except\<close> clause takes it, and the envelope is of type
  \<open>general_error\<close>, not \<open>timeout\<close>.
\<close>

theorem timeout_with_failing_cancel_counterexample:
  "execute_query toy_lib toy_cm toy_config (toy_remote stuck_job_cancel_fails) ''index=main''
       None None None (Some 1) SplunkClient_init =
     Some (Inr (error_envelope ''index=main''
                  [Sub (OtherException ''Connection reset by peer'')] ''general_error''),
           SplunkClient_init\<lparr>connections_main := Some 7, n_connect := 1, n_apps_list := 1,
                              n_jobs := 1, n_clock := 3,
                              events := [Attempt, Sleep (1/2), Cancel ''sid1'']\<rparr>)"
proof -
  let ?W = "toy_remote stuck_job_cancel_fails"
  let ?st3 = "SplunkClient_init\<lparr>connections_main := Some 7, n_connect := 1, n_apps_list := 1,
                                events := [Attempt], n_jobs := 1, n_clock := 1\<rparr>"
  have "wait_for_job ?W stuck_job_cancel_fails 0 1 0 ?st3 =
          Some (Inl (OtherException ''Connection reset by peer''),
                ?st3\<lparr>n_clock := 3, events := [Attempt, Sleep (1/2), Cancel ''sid1'']\<rparr>)"
    apply (subst wait_for_job.simps)
    apply (simp add: stuck_job_cancel_fails_def stuck_job_def done_job_def toy_remote_simps
             init_simps log_event_def Let_def)
    apply (subst wait_for_job.simps)
    apply (simp add: toy_remote_simps init_simps log_event_def Let_def)
    done
  then show ?thesis
    by (simp add: execute_query_def toy_get_connection Let_def toy_remote_simps
          init_simps normalize_query_def startswith_def strip_def isspace_def
          query_handler_def str_exn_def)
qed

text \<open>
  C3 at a failing input. The job is created and done at the first poll, its statistics
  are read, and the result fetch fails on a reset connection: \<open>execute_query\<close> returns
  the \<open>general_error\<close> envelope, and the log holds the connection attempt only. No
  \<open>cancel\<close> was issued for the job, although the claim requires one on every path.
\<close>

theorem results_error_skips_cancel:
  "execute_query toy_lib toy_cm toy_config (toy_remote failing_results_job) ''index=main''
       None None None None SplunkClient_init =
     Some (Inr (error_envelope ''index=main''
                  [Sub (OtherException ''Connection reset by peer'')] ''general_error''),
           SplunkClient_init\<lparr>connections_main := Some 7,
                              last_query_info := Some (''sid1'', ''index=main'', toy_stats),
                              n_connect := 1, n_apps_list := 1, n_jobs := 1, n_clock := 1,
                              events := [Attempt]\<rparr>) \<and>
   cancels_of ''sid1'' [Attempt] = 0"
proof -
  have d: "is_done_at failing_results_job 0 = Inr True"
    by (simp add: failing_results_job_def done_job_def)
  show ?thesis
    by (simp add: execute_query_def toy_get_connection Let_def toy_remote_simps
          wait_for_job_done [OF d] init_simps normalize_query_def startswith_def strip_def
          isspace_def cancels_of_def)
       (simp add: failing_results_job_def done_job_def query_handler_def str_exn_def
          SplunkClient_init_def)
qed

text \<open>
  When the result fetch is answered with an HTTP error, the \<open>except HTTPError\<close> clause
  itself fails on \<open>e.message\<close>: \<open>execute_query\<close> raises \<open>AttributeError\<close> instead of
  returning an envelope, and again no \<open>cancel\<close> was issued.
\<close>

lemma http_error_escapes_handler:
  "execute_query toy_lib toy_cm toy_config (toy_remote http_failing_results_job) ''index=main''
       None None None None SplunkClient_init =
     Some (Inl (AttributeError ''message''),
           SplunkClient_init\<lparr>connections_main := Some 7,
                              last_query_info := Some (''sid1'', ''index=main'', toy_stats),
                              n_connect := 1, n_apps_list := 1, n_jobs := 1, n_clock := 1,
                              events := [Attempt]\<rparr>)"
proof -
  have d: "is_done_at http_failing_results_job 0 = Inr True"
    by (simp add: http_failing_results_job_def done_job_def)
  show ?thesis
    by (simp add: execute_query_def toy_get_connection Let_def toy_remote_simps
          wait_for_job_done [OF d] init_simps normalize_query_def startswith_def strip_def
          isspace_def)
       (simp add: http_failing_results_job_def done_job_def query_handler_def
          SplunkClient_init_def)
qed

text \<open>
  C10. \<open>get_indexes\<close> always returns a list, never an exception, and the list is empty
  when the connection or the listing fails. Whenever \<open>get_sourcetypes\<close> returns, it
  returns a list, never an exception: the empty list when the connection fails, when
  \<open>execute_query\<close> raises, or when the query envelope is not a success, and on success
  the \<open>sourcetype\<close> values (the empty string where a row has none) without the false
  ones, so the empty string is never among them. It does return under a clock that
  passes every bound, which ends the polling loop.
\<close>

theorem listing_never_raises:
  "(\<exists>xs st'.
      get_indexes L cm cfg W st = (Inr xs, st') \<and>
      ((\<exists>e st1. get_connection L cm cfg W False st = (Inl e, st1)) \<longrightarrow> xs = []) \<and>
      ((\<exists>service st1 e. get_connection L cm cfg W False st = (Inr service, st1) \<and>
                        indexes_list W (n_indexes st1) = Inl e) \<longrightarrow> xs = [])) \<and>
   (\<forall>r st'.
      get_sourcetypes L cm cfg W index st = Some (r, st') \<longrightarrow>
      (\<exists>vs. r = Inr vs \<and> Str '''' \<notin> set vs \<and>
         ((\<exists>e st1. get_connection L cm cfg W False st = (Inl e, st1)) \<longrightarrow> vs = []) \<and>
         (\<forall>service st1 e st2.
            get_connection L cm cfg W False st = (Inr service, st1) \<and>
            execute_query L cm cfg W (sourcetypes_query index) (Some ''-7d'') (Some ''now'')
              (Some 1000) None st1 = Some (Inl e, st2) \<longrightarrow>
            vs = []) \<and>
         (\<forall>service st1 env st2.
            get_connection L cm cfg W False st = (Inr service, st1) \<and>
            execute_query L cm cfg W (sourcetypes_query index) (Some ''-7d'') (Some ''now'')
              (Some 1000) None st1 = Some (Inr env, st2) \<longrightarrow>
            vs = (if q_status env = ''success''
                  then filter truthy
                         (map (\<lambda>r. row_get r ''sourcetype'' (Str ''''))
                              (case q_results env of Some rs \<Rightarrow> rs | None \<Rightarrow> []))
                  else [])))) \<and>
   (clock_advances W \<longrightarrow>
      (\<exists>r st'. get_sourcetypes L cm cfg W index st = Some (r, st')))"
proof -
  obtain c st1 where gc: "get_connection L cm cfg W False st = (c, st1)"
    by (cases "get_connection L cm cfg W False st")
  show ?thesis
  proof (cases c)
    case (Inl e)
    with gc show ?thesis
      by (simp add: get_indexes_def get_sourcetypes_def)
  next
    case (Inr service)
    have i: "\<exists>xs st'.
      get_indexes L cm cfg W st = (Inr xs, st') \<and>
      ((\<exists>e st1. get_connection L cm cfg W False st = (Inl e, st1)) \<longrightarrow> xs = []) \<and>
      ((\<exists>service st1 e. get_connection L cm cfg W False st = (Inr service, st1) \<and>
                        indexes_list W (n_indexes st1) = Inl e) \<longrightarrow> xs = [])"
      using gc Inr
      by (cases "indexes_list W (n_indexes st1)") (simp_all add: get_indexes_def Let_def)
    have s: "\<forall>r st'.
      get_sourcetypes L cm cfg W index st = Some (r, st') \<longrightarrow>
      (\<exists>vs. r = Inr vs \<and> Str '''' \<notin> set vs \<and>
         ((\<exists>e st1. get_connection L cm cfg W False st = (Inl e, st1)) \<longrightarrow> vs = []) \<and>
         (\<forall>service st1 e st2.
            get_connection L cm cfg W False st = (Inr service, st1) \<and>
            execute_query L cm cfg W (sourcetypes_query index) (Some ''-7d'') (Some ''now'')
              (Some 1000) None st1 = Some (Inl e, st2) \<longrightarrow>
            vs = []) \<and>
         (\<forall>service st1 env st2.
            get_connection L cm cfg W False st = (Inr service, st1) \<and>
            execute_query L cm cfg W (sourcetypes_query index) (Some ''-7d'') (Some ''now'')
              (Some 1000) None st1 = Some (Inr env, st2) \<longrightarrow>
            vs = (if q_status env = ''success''
                  then filter truthy
                         (map (\<lambda>r. row_get r ''sourcetype'' (Str ''''))
                              (case q_results env of Some rs \<Rightarrow> rs | None \<Rightarrow> []))
                  else [])))"
    proof (cases "execute_query L cm cfg W (sourcetypes_query index) (Some ''-7d'')
                    (Some ''now'') (Some 1000) None st1")
      case None
      with gc Inr show ?thesis by (simp add: get_sourcetypes_def Let_def)
    next
      case (Some p)
      obtain q st2 where p: "p = (q, st2)" by (cases p)
      show ?thesis
      proof (cases q)
        case (Inl e)
        with gc Inr Some p show ?thesis by (simp add: get_sourcetypes_def Let_def)
      next
        case e: (Inr env)
        with gc Inr Some p show ?thesis
          by (auto simp: get_sourcetypes_def Let_def truthy_def split: if_splits)
      qed
    qed
    have t: "clock_advances W \<longrightarrow>
      (\<exists>r st'. get_sourcetypes L cm cfg W index st = Some (r, st'))"
    proof
      assume "clock_advances W"
      from execute_query_returns [OF this] obtain q st2 where
        "execute_query L cm cfg W (sourcetypes_query index) (Some ''-7d'') (Some ''now'')
           (Some 1000) None st1 = Some (q, st2)"
        by blast
      with gc Inr show "\<exists>r st'. get_sourcetypes L cm cfg W index st = Some (r, st')"
        by (cases q) (simp_all add: get_sourcetypes_def Let_def)
    qed
    from i s t show ?thesis by blast
  qed
qed

lemma down_clock_advances: "clock_advances down_remote"
  unfolding clock_advances_def
proof (intro allI)
  fix c :: nat and x :: real
  obtain n where "x < real n" using reals_Archimedean2 by blast
  then have "x < real (c + n)" by simp
  then show "\<exists>n. x < clock down_remote (c + n)"
    by (auto simp: down_remote_def toy_remote_def)
qed

theorem listing_never_raises_witness:
  "clock_advances down_remote \<and>
   (\<exists>st'. get_indexes toy_lib toy_cm toy_config down_remote SplunkClient_init = (Inr [], st')) \<and>
   (\<exists>st'. get_sourcetypes toy_lib toy_cm toy_config down_remote None SplunkClient_init
            = Some (Inr [], st'))"
  using listing_never_raises [of toy_lib toy_cm toy_config down_remote SplunkClient_init None]
        down_get_connection down_clock_advances
  by auto

subsection \<open>Summaries and pagination\<close>

lemma calculate_pagination_equal:
  assumes "0 < page_size"
  shows "calculate_pagination page_size page_size =
     Inr \<lparr> p_total_results = page_size, p_page_size = page_size, p_total_pages = 1,
           p_requires_pagination = False \<rparr>"
proof -
  have "page_size + page_size - 1 = page_size * 1 + (page_size - 1)" by simp
  moreover have "0 \<le> page_size - 1" and "page_size - 1 < page_size" using assms by simp_all
  ultimately have "(page_size + page_size - 1) div page_size = 1"
    by (rule int_div_pos_eq)
  with assms show ?thesis by (simp add: calculate_pagination_def Let_def)
qed

lemma calculate_pagination_one_more:
  assumes "0 < page_size"
  shows "calculate_pagination (page_size + 1) page_size =
     Inr \<lparr> p_total_results = page_size + 1, p_page_size = page_size, p_total_pages = 2,
           p_requires_pagination = True \<rparr>"
proof -
  have "page_size + 1 + page_size - 1 = 2 * page_size" by simp
  then have "(page_size + 1 + page_size - 1) div page_size = 2" using assms by simp
  with assms show ?thesis by (simp add: calculate_pagination_def Let_def)
qed

lemma report_fields:
  assumes "format_query_response now query_data include_raw page_size = Inr (QueryResults rep)"
  shows "calculate_pagination
           (int (length (case q_results query_data of Some rs \<Rightarrow> rs | None \<Rightarrow> []))) page_size
           = Inr (r_pagination rep)"
    and "r_results rep =
           (if int (length (case q_results query_data of Some rs \<Rightarrow> rs | None \<Rightarrow> []))
                 \<le> page_size \<and> include_raw
            then Some (clean_results (case q_results query_data of Some rs \<Rightarrow> rs | None \<Rightarrow> []))
            else None)"
    and "r_results_preview rep =
           (if int (length (case q_results query_data of Some rs \<Rightarrow> rs | None \<Rightarrow> []))
                 \<le> page_size
            then None
            else Some (clean_results
                         (take 100 (case q_results query_data of Some rs \<Rightarrow> rs | None \<Rightarrow> []))))"
    and "r_pagination_guidance rep =
           (if int (length (case q_results query_data of Some rs \<Rightarrow> rs | None \<Rightarrow> []))
                 \<le> page_size
            then None
            else Some \<lparr> pg_total_pages = p_total_pages (r_pagination rep),
                        pg_results_per_page = page_size,
                        pg_suggestion =
                          ''Consider adding filters or time constraints to reduce result set'' \<rparr>)"
  using assms
  by (auto simp: format_query_response_def Let_def split: if_splits sum.splits)

text \<open>
  C7. For every positive page size, \<open>_calculate_pagination\<close> with as many results as
  the page size gives one page and \<open>requires_pagination\<close> false, and with one result
  more gives two pages and \<open>requires_pagination\<close> true. Whenever
  \<open>format_query_response\<close> produces a report, for any page size, the report's
  pagination block is the one \<open>_calculate_pagination\<close> computes from the number of
  results, and a \<open>results_preview\<close>, when present, has at most 100 records.
\<close>

theorem pagination_boundary:
  "(0 < page_size \<longrightarrow>
      calculate_pagination page_size page_size =
        Inr \<lparr> p_total_results = page_size, p_page_size = page_size, p_total_pages = 1,
              p_requires_pagination = False \<rparr> \<and>
      calculate_pagination (page_size + 1) page_size =
        Inr \<lparr> p_total_results = page_size + 1, p_page_size = page_size, p_total_pages = 2,
              p_requires_pagination = True \<rparr>) \<and>
   (format_query_response now query_data include_raw any_page_size = Inr (QueryResults rep) \<longrightarrow>
      calculate_pagination
        (int (length (case q_results query_data of Some rs \<Rightarrow> rs | None \<Rightarrow> [])))
        any_page_size = Inr (r_pagination rep) \<and>
      (\<forall>preview. r_results_preview rep = Some preview \<longrightarrow> length preview \<le> 100))"
proof (intro conjI impI allI)
  assume "0 < page_size"
  then show "calculate_pagination page_size page_size =
        Inr \<lparr> p_total_results = page_size, p_page_size = page_size, p_total_pages = 1,
              p_requires_pagination = False \<rparr>"
    by (rule calculate_pagination_equal)
next
  assume "0 < page_size"
  then show "calculate_pagination (page_size + 1) page_size =
        Inr \<lparr> p_total_results = page_size + 1, p_page_size = page_size, p_total_pages = 2,
              p_requires_pagination = True \<rparr>"
    by (rule calculate_pagination_one_more)
next
  assume "format_query_response now query_data include_raw any_page_size
            = Inr (QueryResults rep)"
  then show "calculate_pagination
        (int (length (case q_results query_data of Some rs \<Rightarrow> rs | None \<Rightarrow> [])))
        any_page_size = Inr (r_pagination rep)"
    by (rule report_fields(1))
next
  fix preview
  assume f: "format_query_response now query_data include_raw any_page_size
            = Inr (QueryResults rep)"
    and p: "r_results_preview rep = Some preview"
  from report_fields(3) [OF f] p show "length preview \<le> 100"
    by (auto simp: clean_results_def split: if_splits)
qed

lemma sample_event_summary:
  "generate_event_summary [[(''sourcetype'', Str ''syslog'')], [(''sourcetype'', Str ''audit'')]]
     = Inr (Some \<lparr> es_total_events = 2, es_unique_hosts = None, es_top_hosts = None,
                    es_unique_sources = None, es_top_sources = None,
                    es_sourcetypes = Some [(''syslog'', 1), (''audit'', 1)],
                    es_severity_distribution = None \<rparr>)"
  by (simp add: generate_event_summary_def field_counter_def has_field_def row_get_def
        counter_incr_def most_common_all_def)

lemma sample_field_summary:
  "generate_field_summary [[(''sourcetype'', Str ''syslog'')], [(''sourcetype'', Str ''audit'')]]
     = [(''sourcetype'',
         \<lparr> fi_sample_values = [''syslog'', ''audit''], fi_unique_count = 2,
           fi_top_values = [(''syslog'', 1), (''audit'', 1)] \<rparr>)]"
  by (simp add: generate_field_summary_def collect_fields_def summary_add_def startswith_def
        value_in_def py_str_def counter_incr_def most_common_def most_common_all_def Let_def)

lemma sample_clean:
  "clean_results [[(''sourcetype'', Str ''syslog'')], [(''sourcetype'', Str ''audit'')]]
     = [[(''sourcetype'', Str ''syslog'')], [(''sourcetype'', Str ''audit'')]]"
  by (simp add: clean_results_def clean_result_def priority_fields_def startswith_def Let_def)

theorem pagination_boundary_witness:
  "calculate_pagination 1 1 =
     Inr \<lparr> p_total_results = 1, p_page_size = 1, p_total_pages = 1,
           p_requires_pagination = False \<rparr> \<and>
   calculate_pagination 2 1 =
     Inr \<lparr> p_total_results = 2, p_page_size = 1, p_total_pages = 2,
           p_requires_pagination = True \<rparr> \<and>
   (\<exists>rep preview. format_query_response ''t'' sample_envelope True 1 = Inr (QueryResults rep) \<and>
      r_pagination rep = \<lparr> p_total_results = 2, p_page_size = 1, p_total_pages = 2,
                            p_requires_pagination = True \<rparr> \<and>
      r_results_preview rep = Some preview \<and> length preview \<le> 100)"
proof -
  obtain rep where f: "format_query_response ''t'' sample_envelope True 1 = Inr (QueryResults rep)"
    and p: "r_results_preview rep
              = Some [[(''sourcetype'', Str ''syslog'')], [(''sourcetype'', Str ''audit'')]]"
    by (simp add: format_query_response_def sample_envelope_def calculate_pagination_def
          sample_event_summary sample_clean Let_def)
  from pagination_boundary [of 1 "''t''" sample_envelope True 1 rep] f p
  show ?thesis
    by (auto simp: sample_envelope_def)
qed

text \<open>
  C8, as the code has it. Whenever \<open>format_query_response\<close> produces a report for an
  envelope with no more results than the page size, the report carries the cleaned
  rows of all results under \<open>results\<close> exactly when \<open>include_raw\<close> is true; when it is
  false there is no \<open>results\<close> entry. In both cases there is no \<open>results_preview\<close>.
\<close>

theorem results_embedded_iff_include_raw:
  assumes "format_query_response now query_data include_raw page_size = Inr (QueryResults rep)"
    and "int (length (case q_results query_data of Some rs \<Rightarrow> rs | None \<Rightarrow> [])) \<le> page_size"
  shows "r_results rep =
           (if include_raw
            then Some (clean_results (case q_results query_data of Some rs \<Rightarrow> rs | None \<Rightarrow> []))
            else None) \<and>
         r_results_preview rep = None"
  using report_fields(2,3) [OF assms(1)] assms(2) by simp

theorem results_embedded_iff_include_raw_witness:
  "\<exists>rep. format_query_response ''t'' sample_envelope True 1000 = Inr (QueryResults rep) \<and>
         r_results rep
           = Some [[(''sourcetype'', Str ''syslog'')], [(''sourcetype'', Str ''audit'')]] \<and>
         r_results_preview rep = None"
proof -
  obtain rep where
    f: "format_query_response ''t'' sample_envelope True 1000 = Inr (QueryResults rep)"
    by (simp add: format_query_response_def sample_envelope_def calculate_pagination_def
          sample_event_summary Let_def)
  have l: "int (length (case q_results sample_envelope of Some rs \<Rightarrow> rs | None \<Rightarrow> [])) \<le> 1000"
    by (simp add: sample_envelope_def)
  from results_embedded_iff_include_raw [OF f l] f show ?thesis
    by (simp add: sample_envelope_def sample_clean)
qed

text \<open>
  C8 as stated fails when \<open>include_raw\<close> is false: two results, page size 1000, and the
  report has neither \<open>results\<close> nor \<open>results_preview\<close>.
\<close>

theorem results_omitted_without_include_raw_counterexample:
  "format_query_response ''t'' sample_envelope False 1000 =
     Inr (QueryResults
       \<lparr> r_type = ''query_results'', r_status = ''success'', r_query = ''index=main'',
         r_timestamp = ''t'', r_time_range = Some (''-1h'', ''now''),
         r_statistics = \<lparr> rs_total_events = 2, rs_total_results = 2, rs_scan_count = 2,
                          rs_execution_time = [Fixed2 (1/4), Txt ''s''] \<rparr>,
         r_pagination = \<lparr> p_total_results = 2, p_page_size = 1000, p_total_pages = 1,
                          p_requires_pagination = False \<rparr>,
         r_field_summary =
           [(''sourcetype'',
             \<lparr> fi_sample_values = [''syslog'', ''audit''], fi_unique_count = 2,
               fi_top_values = [(''syslog'', 1), (''audit'', 1)] \<rparr>)],
         r_event_summary =
           Some \<lparr> es_total_events = 2, es_unique_hosts = None, es_top_hosts = None,
                  es_unique_sources = None, es_top_sources = None,
                  es_sourcetypes = Some [(''syslog'', 1), (''audit'', 1)],
                  es_severity_distribution = None \<rparr>,
         r_results = None, r_results_preview = None,
         r_message = [Txt ''Query completed with '', Num 2, Txt '' results''],
         r_pagination_guidance = None, r_splunk_messages = None \<rparr>)"
  by (simp add: format_query_response_def sample_envelope_def calculate_pagination_def
        sample_event_summary sample_field_summary toy_stats_def Let_def)

text \<open>
  C9 at a failing input. Two rows carry the same multivalue field. The test
  \<open>value not in sample_values\<close> compares the list with the strings already stored, so
  it never finds it, and \<open>str(value)\<close> is appended again: the sample values hold the
  same text twice.
\<close>

theorem multivalue_samples_repeat:
  "generate_field_summary multivalue_rows =
     [(''tags'',
       \<lparr> fi_sample_values = [[CHR ''['', CHR 0x27, CHR ''a'', CHR 0x27, CHR '']''],
                              [CHR ''['', CHR 0x27, CHR ''a'', CHR 0x27, CHR '']'']],
         fi_unique_count = 1,
         fi_top_values = [([CHR ''['', CHR 0x27, CHR ''a'', CHR 0x27, CHR '']''], 2)] \<rparr>)] \<and>
   \<not> distinct (fi_sample_values (snd (hd (generate_field_summary multivalue_rows))))"
proof -
  have "generate_field_summary multivalue_rows =
     [(''tags'',
       \<lparr> fi_sample_values = [[CHR ''['', CHR 0x27, CHR ''a'', CHR 0x27, CHR '']''],
                              [CHR ''['', CHR 0x27, CHR ''a'', CHR 0x27, CHR '']'']],
         fi_unique_count = 1,
         fi_top_values = [([CHR ''['', CHR 0x27, CHR ''a'', CHR 0x27, CHR '']''], 2)] \<rparr>)]"
    by (simp add: generate_field_summary_def multivalue_rows_def collect_fields_def
          summary_add_def startswith_def value_in_def py_str_def py_repr_def repr_quote_def
          repr_char_def counter_incr_def most_common_def most_common_all_def Let_def)
  then show ?thesis by simp
qed

text \<open>
  The rest of C9 holds for every input: field names that start with an underscore are
  left out, no field has more than five sample values or more than five top values,
  the top values are in descending order of count, and only the first 100 rows are
  read. When every value is a string, the sample values are pairwise different.
\<close>

lemma foldl_invariant:
  assumes "I a" and "\<And>b x. I b \<Longrightarrow> x \<in> set xs \<Longrightarrow> I (f b x)"
  shows "I (foldl f a xs)"
  using assms by (induction xs arbitrary: a) auto

lemma set_dict_set: "set (dict_set d k v) \<subseteq> insert (k, v) (set d)"
  by (induction d k v rule: dict_set.induct) auto

lemma summary_add_ok: "acc_ok fs \<Longrightarrow> acc_ok (summary_add fs item)"
proof -
  assume ok: "acc_ok fs"
  show ?thesis
  proof (cases "startswith (fst item) ''_''")
    case True
    with ok show ?thesis by (simp add: summary_add_def Let_def)
  next
    case False
    let ?acc = "case map_of fs (fst item) of
                  None \<Rightarrow> \<lparr> sample_values = [], value_count = [] \<rparr> | Some a \<Rightarrow> a"
    have "length (sample_values ?acc) \<le> 5"
    proof (cases "map_of fs (fst item)")
      case None
      then show ?thesis by simp
    next
      case (Some a)
      then have "(fst item, a) \<in> set fs" by (rule map_of_SomeD)
      with ok Some show ?thesis by (auto simp: acc_ok_def)
    qed
    with ok False set_dict_set show ?thesis
      unfolding acc_ok_def summary_add_def Let_def
      by (fastforce split: if_splits)
  qed
qed

lemma collect_fields_ok: "acc_ok (collect_fields rows)"
  unfolding collect_fields_def
proof (rule foldl_invariant)
  show "acc_ok []" by (simp add: acc_ok_def)
next
  fix b r assume "acc_ok b"
  then show "acc_ok (foldl summary_add b r)"
    by (rule foldl_invariant) (rule summary_add_ok)
qed

lemma most_common_sorted:
  "sorted_wrt (\<lambda>a b. snd b \<le> snd a) (most_common n c)"
proof -
  have "sorted (map (\<lambda>kv. - int (snd kv)) (most_common_all c))"
    unfolding most_common_all_def by (rule sorted_sort_key)
  then have "sorted_wrt (\<lambda>a b. snd b \<le> snd a) (most_common_all c)"
    by (simp add: sorted_map)
  then show ?thesis
    unfolding most_common_def by (rule sorted_wrt_take)
qed

lemma most_common_length: "length (most_common n c) \<le> n"
  by (simp add: most_common_def)

lemma field_summary_first_100:
  "generate_field_summary results = generate_field_summary (take 100 results)"
  by (simp add: generate_field_summary_def Let_def min_def)

lemma field_summary_bounds:
  assumes "(field, info) \<in> set (generate_field_summary results)"
  shows "\<not> startswith field ''_'' \<and> length (fi_sample_values info) \<le> 5 \<and>
         length (fi_top_values info) \<le> 5 \<and>
         sorted_wrt (\<lambda>a b. snd b \<le> snd a) (fi_top_values info)"
proof -
  from assms obtain acc where
    m: "(field, acc) \<in> set (collect_fields (take (min 100 (length results)) results))"
    and i: "info = \<lparr> fi_sample_values = sample_values acc,
                     fi_unique_count = length (value_count acc),
                     fi_top_values = most_common 5 (value_count acc) \<rparr>"
    by (auto simp: generate_field_summary_def Let_def split: if_splits)
  have "acc_ok (collect_fields (take (min 100 (length results)) results))"
    by (rule collect_fields_ok)
  with m have "\<not> startswith field ''_''" "length (sample_values acc) \<le> 5"
    unfolding acc_ok_def by force+
  with i show ?thesis
    by (simp add: most_common_sorted most_common_length)
qed

lemma summary_add_distinct:
  assumes "acc_distinct fs" and "snd item = Str s"
  shows "acc_distinct (summary_add fs item)"
proof -
  let ?acc = "case map_of fs (fst item) of
                None \<Rightarrow> \<lparr> sample_values = [], value_count = [] \<rparr> | Some a \<Rightarrow> a"
  have "distinct (sample_values ?acc)"
  proof (cases "map_of fs (fst item)")
    case None
    then show ?thesis by simp
  next
    case (Some a)
    then have "(fst item, a) \<in> set fs" by (rule map_of_SomeD)
    with assms(1) Some show ?thesis by (auto simp: acc_distinct_def)
  qed
  with assms set_dict_set show ?thesis
    unfolding acc_distinct_def summary_add_def Let_def value_in_def py_str_def
    by (fastforce split: if_splits)
qed

lemma field_summary_distinct_on_strings:
  assumes "all_strings results" and "(field, info) \<in> set (generate_field_summary results)"
  shows "distinct (fi_sample_values info)"
proof -
  let ?rows = "take (min 100 (length results)) results"
  have s: "\<forall>r \<in> set ?rows. \<forall>kv \<in> set r. \<exists>s. snd kv = Str s"
    using assms(1) by (auto simp: all_strings_def dest: in_set_takeD)
  have "acc_distinct (collect_fields ?rows)"
    unfolding collect_fields_def
  proof (rule foldl_invariant)
    show "acc_distinct []" by (simp add: acc_distinct_def)
  next
    fix b r assume b: "acc_distinct b" and r: "r \<in> set ?rows"
    show "acc_distinct (foldl summary_add b r)"
    proof (rule foldl_invariant)
      show "acc_distinct b" by (rule b)
    next
      fix c item assume c: "acc_distinct c" and "item \<in> set r"
      with s r obtain v where "snd item = Str v" by blast
      with c show "acc_distinct (summary_add c item)" by (rule summary_add_distinct)
    qed
  qed
  with assms(2) show ?thesis
    by (auto simp: generate_field_summary_def Let_def acc_distinct_def split: if_splits)
qed

end
